theory Spec2Isabelle
  imports Complex_Main "HOL-Library.Word" "HOL-Library.Log_Nat" "HOL-Library.Sublist"
begin

section \<open>JavaScript strings\<close>

text \<open>
  A JavaScript string is a sequence of UTF-16 code units; \<open>length\<close> and
  \<open>substring\<close> count code units. ASCII literals of the source are embedded
  with \<open>lit\<close>.
\<close>

type_synonym jsstring = "16 word list"

definition lit :: "string \<Rightarrow> jsstring" where
  "lit s = map of_char s"

text \<open>
  \<open>String.prototype.substring(start, end)\<close>: both indices are clamped to the
  length and swapped when \<open>start > end\<close>. With one argument, \<open>end\<close> is the
  length.
\<close>

definition substring :: "jsstring \<Rightarrow> nat \<Rightarrow> nat \<Rightarrow> jsstring" where
  "substring s start finish =
     (let len = length s;
          a = min start len;
          b = min finish len;
          from = min a b;
          to = max a b
      in take (to - from) (drop from s))"

definition substringFrom :: "jsstring \<Rightarrow> nat \<Rightarrow> jsstring" where
  "substringFrom s start = substring s start (length s)"

text \<open>
  \<open>String.prototype.trim\<close> strips the ECMAScript WhiteSpace and LineTerminator
  code points from both ends.
\<close>

definition isWhiteSpace :: "16 word \<Rightarrow> bool" where
  "isWhiteSpace c \<longleftrightarrow>
     c \<in> {0x09, 0x0A, 0x0B, 0x0C, 0x0D, 0x20, 0xA0, 0x1680, 0x2028, 0x2029,
          0x202F, 0x205F, 0x3000, 0xFEFF}
     \<or> (0x2000 \<le> c \<and> c \<le> 0x200A)"

definition trim :: "jsstring \<Rightarrow> jsstring" where
  "trim s = rev (dropWhile isWhiteSpace (rev (dropWhile isWhiteSpace s)))"


section \<open>JavaScript numbers\<close>

text \<open>
  A number is an IEEE 754 binary64 value. A finite one is represented by its exact
  rational value (negative zero is not distinguished from zero: the two print and
  compare alike in everything below).
\<close>

datatype number = Num rat | NaN | PosInfinity | NegInfinity

definition pow2 :: "int \<Rightarrow> rat" where
  "pow2 e = (if 0 \<le> e then 2 ^ nat e else 1 / 2 ^ nat (- e))"

text \<open>\<open>ilog2 x\<close> is the binary exponent of a positive rational: \<open>2^e \<le> x < 2^(e+1)\<close>.\<close>

definition ilog2 :: "rat \<Rightarrow> int" where
  "ilog2 x = (let (p, q) = quotient_of x; e = bitlen p - bitlen q
              in if pow2 e \<le> x then e else e - 1)"

definition roundHalfEven :: "rat \<Rightarrow> int" where
  "roundHalfEven y =
     (let f = \<lfloor>y\<rfloor>; r = y - of_int f
      in if r < 1 / 2 then f else if 1 / 2 < r then f + 1 else if even f then f else f + 1)"

text \<open>
  \<open>fl x\<close> rounds an exact result to the nearest binary64 value, ties to even, with
  a 53-bit significand (and the fixed spacing \<open>2^-1074\<close> in the subnormal range).
  Overflow to infinity is not represented; it needs a magnitude of \<open>2^1024\<close>, which
  no arithmetic on pixel counts reaches.
\<close>

definition fl :: "rat \<Rightarrow> rat" where
  "fl x = (if x = 0 then 0
           else let a = \<bar>x\<bar>; u = pow2 (max (ilog2 a - 52) (- 1074))
                in sgn x * of_int (roundHalfEven (a / u)) * u)"

definition fadd :: "rat \<Rightarrow> rat \<Rightarrow> rat" where
  "fadd x y = fl (x + y)"

definition fmul :: "rat \<Rightarrow> rat \<Rightarrow> rat" where
  "fmul x y = fl (x * y)"

definition fdiv :: "rat \<Rightarrow> rat \<Rightarrow> rat" where
  "fdiv x y = fl (x / y)"

text \<open>
  \<open>Math.round\<close>: the closest integer, the one nearer to plus infinity of two equally
  close ones.
\<close>

definition mathRound :: "rat \<Rightarrow> int" where
  "mathRound x = \<lfloor>x + 1 / 2\<rfloor>"

definition digitChar :: "nat \<Rightarrow> 16 word" where
  "digitChar d = of_nat (48 + d)"

fun decimalDigits :: "nat \<Rightarrow> jsstring" where
  "decimalDigits n =
     (if n < 10 then [digitChar n] else decimalDigits (n div 10) @ [digitChar (n mod 10)])"

declare decimalDigits.simps [simp del]

text \<open>
  What the program takes from the JavaScript engine without fixing it itself:
  \<^item> \<open>shortestDigits\<close>: the text \<open>Number::toString\<close> gives a finite number that is not
    an integer below \<open>2^53\<close> in magnitude (the shortest decimal that reads back as the
    same binary64 value, in fixed or exponent notation);
  \<^item> \<open>inheritedText\<close>: the text of a property that every plain object inherits from
    \<open>Object.prototype\<close>, when it is interpolated into a template.
\<close>

record engine =
  shortestDigits :: "rat \<Rightarrow> jsstring"
  inheritedText :: "jsstring \<Rightarrow> jsstring"

definition isSafeInteger :: "rat \<Rightarrow> bool" where
  "isSafeInteger x \<longleftrightarrow> of_int \<lfloor>x\<rfloor> = x \<and> \<bar>x\<bar> < 2 ^ 53"

text \<open>
  \<open>Number::toString\<close> (radix 10), as used by template interpolation. An integer below
  \<open>2^53\<close> in magnitude prints as its decimal digits.
\<close>

fun numberToString :: "engine \<Rightarrow> number \<Rightarrow> jsstring" where
  "numberToString E NaN = lit ''NaN''"
| "numberToString E PosInfinity = lit ''Infinity''"
| "numberToString E NegInfinity = lit ''-Infinity''"
| "numberToString E (Num x) =
     (if isSafeInteger x
      then (if x < 0 then lit ''-'' else []) @ decimalDigits (nat \<bar>\<lfloor>x\<rfloor>\<bar>)
      else shortestDigits E x)"

text \<open>
  \<open>Number.prototype.toFixed(f)\<close>: a value that is not finite prints as
  \<open>Number::toString\<close> does, and so does a magnitude of \<open>10^21\<close> or more; otherwise
  the integer \<open>n\<close> closest to \<open>x * 10^f\<close> (the larger of two equally close ones) is
  printed by \<open>fixedDigits\<close>: with a decimal point before its last \<open>f\<close> digits, padded
  with zeros on the left to \<open>f + 1\<close> digits.
\<close>

definition fixedDigits :: "nat \<Rightarrow> nat \<Rightarrow> jsstring" where
  "fixedDigits n f =
     (let m = (if n = 0 then lit ''0'' else decimalDigits n)
      in if f \<noteq> 0
         then let k = length m;
                  z = (if k \<le> f then replicate (f + 1 - k) (digitChar 0) @ m else m);
                  k = (if k \<le> f then f + 1 else k)
              in take (k - f) z @ lit ''.'' @ drop (k - f) z
         else m)"

fun toFixed :: "engine \<Rightarrow> number \<Rightarrow> nat \<Rightarrow> jsstring" where
  "toFixed E (Num x) f =
     (let s = (if x < 0 then lit ''-'' else []);
          a = \<bar>x\<bar>
      in if 10 ^ 21 \<le> a then s @ numberToString E (Num a)
         else s @ fixedDigits (nat \<lfloor>a * 10 ^ f + 1 / 2\<rfloor>) f)"
| "toFixed E x f = numberToString E x"


section \<open>The overlay (\<open>services/image-composer.ts\<close>)\<close>

record stats =
  restaurants :: number
  grocery :: number
  shopping :: number
  parks :: number

record poi =
  name :: jsstring
  category :: jsstring
  distance :: number

record CompositeMapInput =
  mapUrl :: jsstring
  address :: jsstring
  radius :: number
  stats :: stats
  closestPOIs :: "poi list"

subsection \<open>Sizes\<close>

text \<open>
  \<open>scale\<close> and the size constants of \<open>generateOverlaySVG\<close>, for a canvas of
  \<open>w\<close> by \<open>h\<close> pixels. The division and the products are binary64 operations.
\<close>

definition scale :: "int \<Rightarrow> int \<Rightarrow> rat" where
  "scale w h = (let baseScale = fdiv (of_int (max w h)) 1000 in max baseScale 1)"

record sizes =
  padding :: int
  boxPadding :: int
  titleFontSize :: int
  textFontSize :: int
  smallFontSize :: int
  dotSize :: int
  lineHeight :: int
  borderRadius :: int
  addressBoxWidth :: int
  addressBoxHeight :: int
  amenitiesBoxWidth :: int
  amenitiesBoxHeight :: int
  closestBoxWidth :: int
  closestBoxHeight :: int

definition overlaySizes :: "int \<Rightarrow> int \<Rightarrow> sizes" where
  "overlaySizes w h =
     (let s = scale w h
      in \<lparr>padding = mathRound (fmul 12 s),
          boxPadding = mathRound (fmul 10 s),
          titleFontSize = mathRound (fmul 14 s),
          textFontSize = mathRound (fmul 11 s),
          smallFontSize = mathRound (fmul 10 s),
          dotSize = mathRound (fmul 8 s),
          lineHeight = mathRound (fmul 16 s),
          borderRadius = mathRound (fmul 6 s),
          addressBoxWidth = mathRound (fmul 240 s),
          addressBoxHeight = mathRound (fmul 65 s),
          amenitiesBoxWidth = mathRound (fmul 160 s),
          amenitiesBoxHeight = mathRound (fmul 115 s),
          closestBoxWidth = mathRound (fmul 200 s),
          closestBoxHeight = mathRound (fmul 95 s)\<rparr>)"

subsection \<open>Address lines\<close>

definition displayAddress :: "jsstring \<Rightarrow> jsstring" where
  "displayAddress addr =
     (if length addr > 40 then substring addr 0 37 @ lit ''...'' else addr)"

definition addressLine1 :: "jsstring \<Rightarrow> jsstring" where
  "addressLine1 addr = substring (displayAddress addr) 0 30"

definition addressLine2 :: "jsstring \<Rightarrow> jsstring" where
  "addressLine2 addr =
     (if length (displayAddress addr) > 30 then substringFrom (displayAddress addr) 30 else [])"

subsection \<open>Closest locations entries\<close>

text \<open>The own properties of the object literal \<open>categoryColors\<close>, in source order.\<close>

definition categoryColors :: "(jsstring \<times> jsstring) list" where
  "categoryColors =
     [(lit ''restaurant'', lit ''#F97316''),
      (lit ''grocery'', lit ''#92400E''),
      (lit ''shopping'', lit ''#A855F7''),
      (lit ''park'', lit ''#22C55E'')]"

text \<open>
  \<open>categoryColors\<close> is a plain object, so a property read that finds no own property
  goes on to \<open>Object.prototype\<close>. These are its property names.
\<close>

definition objectPrototypeKeys :: "jsstring list" where
  "objectPrototypeKeys =
     [lit ''constructor'', lit ''__defineGetter__'', lit ''__defineSetter__'',
      lit ''hasOwnProperty'', lit ''__lookupGetter__'', lit ''__lookupSetter__'',
      lit ''isPrototypeOf'', lit ''propertyIsEnumerable'', lit ''toString'',
      lit ''valueOf'', lit ''__proto__'', lit ''toLocaleString'']"

text \<open>
  \<open>color\<close> of an entry, as interpolated: \<open>categoryColors[poi.category] || "#666666"\<close>.
  An inherited property is a function or an object, hence truthy, and is interpolated
  as the engine's text for it.
\<close>

definition entryColor :: "engine \<Rightarrow> jsstring \<Rightarrow> jsstring" where
  "entryColor E c =
     (case map_of categoryColors c of
        Some v \<Rightarrow> if v \<noteq> [] then v else lit ''#666666''
      | None \<Rightarrow> if c \<in> set objectPrototypeKeys then inheritedText E c else lit ''#666666'')"

text \<open>\<open>name\<close> of an entry.\<close>

definition entryName :: "jsstring \<Rightarrow> jsstring" where
  "entryName n = (if length n > 22 then substring n 0 19 @ lit ''...'' else n)"

definition closestEntry :: "engine \<Rightarrow> poi \<Rightarrow> jsstring" where
  \<open>closestEntry E p =
     lit ''<tspan fill="'' @ entryColor E (category p) @ lit ''">'' @ [0x25CF] @
     lit ''</tspan> '' @ entryName (name p) @ lit '' ('' @ toFixed E (distance p) 1 @
     lit ''mi)''\<close>

text \<open>\<open>Array.prototype.slice(start, end)\<close> for indices that are not negative.\<close>

definition slice_array :: "'a list \<Rightarrow> nat \<Rightarrow> nat \<Rightarrow> 'a list" where
  "slice_array xs start finish =
     (let len = length xs; a = min start len; b = min finish len
      in take (b - a) (drop a xs))"

definition closestEntries :: "engine \<Rightarrow> poi list \<Rightarrow> jsstring list" where
  "closestEntries E pois = map (closestEntry E) (slice_array pois 0 4)"

definition brandColor :: jsstring where
  "brandColor = lit ''#1E40AF''"

subsection \<open>The template\<close>

text \<open>
  The template literal of \<open>generateOverlaySVG\<close>, element by element, with the white
  space of the source. \<open>str\<close> is the interpolation of a finite number and \<open>L\<close> holds
  the sizes. Sums and differences of sizes are integer arithmetic, which binary64
  performs exactly below \<open>2^53\<close>; the halves and quarters of the dot size and the
  product by \<open>0.85\<close> (the binary64 value \<open>fl (85 / 100)\<close>) are binary64 operations.
\<close>

definition str :: "engine \<Rightarrow> rat \<Rightarrow> jsstring" where
  "str E x = numberToString E (Num x)"

definition svgRoot :: "engine \<Rightarrow> int \<Rightarrow> int \<Rightarrow> jsstring" where
  \<open>svgRoot E w h =
     lit ''<svg width="'' @
     str E (of_int w) @
     lit ''" height="'' @
     str E (of_int h) @
     lit ''" xmlns="http://www.w3.org/2000/svg">''\<close>

definition styleBlock :: "jsstring" where
  \<open>styleBlock =
     lit ''<style>\<newline>    .box { fill: rgba(255, 255, 255, 0.92); filter: drop-shadow(0 1px 3px rgba(0,0,0,0.15)); }\<newline>    .title { font-family: Arial, Helvetica, sans-serif; font-weight: bold; fill: #11181C; }\<newline>    .text { font-family: Arial, Helvetica, sans-serif; fill: #11181C; }\<newline>    .muted { font-family: Arial, Helvetica, sans-serif; fill: #687076; }\<newline>  </style>''\<close>

definition addressRect :: "engine \<Rightarrow> sizes \<Rightarrow> jsstring" where
  \<open>addressRect E L =
     lit ''<rect x="'' @
     str E (of_int (padding L)) @
     lit ''" y="'' @
     str E (of_int (padding L)) @
     lit ''" width="'' @
     str E (of_int (addressBoxWidth L)) @
     lit ''" height="'' @
     str E (of_int (addressBoxHeight L)) @
     lit ''" \<newline>          class="box" rx="'' @
     str E (of_int (borderRadius L)) @
     lit ''" stroke="#E5E7EB" stroke-width="1"/>''\<close>

definition addressLine1Text :: "engine \<Rightarrow> sizes \<Rightarrow> jsstring \<Rightarrow> jsstring" where
  \<open>addressLine1Text E L addr =
     lit ''<text x="'' @
     str E (of_int (padding L + boxPadding L)) @
     lit ''" y="'' @
     str E (of_int (padding L + boxPadding L + titleFontSize L)) @
     lit ''" \<newline>          class="title" font-size="'' @
     str E (of_int (titleFontSize L)) @
     lit ''">'' @
     addressLine1 addr @
     lit ''</text>''\<close>

definition addressLine2Text :: "engine \<Rightarrow> sizes \<Rightarrow> jsstring \<Rightarrow> jsstring" where
  \<open>addressLine2Text E L addr =
     (if addressLine2 addr \<noteq> [] then
     lit ''<text x="'' @
     str E (of_int (padding L + boxPadding L)) @
     lit ''" y="'' @
     str E (fadd (of_int (padding L + boxPadding L + titleFontSize L)) (fmul (of_int (lineHeight L)) (fl (85 / 100)))) @
     lit ''" \<newline>          class="title" font-size="'' @
     str E (of_int (titleFontSize L)) @
     lit ''">'' @
     addressLine2 addr @
     lit ''</text>''
     else [])\<close>

definition radiusLabel :: "engine \<Rightarrow> number \<Rightarrow> jsstring" where
  \<open>radiusLabel E radiusMiles =
     numberToString E radiusMiles @
     lit '' mile'' @
     (if radiusMiles \<noteq> Num 1 then lit ''s'' else []) @
     lit '' radius''\<close>

definition radiusText :: "engine \<Rightarrow> sizes \<Rightarrow> number \<Rightarrow> jsstring" where
  \<open>radiusText E L radiusMiles =
     lit ''<text x="'' @
     str E (of_int (padding L + boxPadding L)) @
     lit ''" y="'' @
     str E (of_int (padding L + addressBoxHeight L - boxPadding L - 2)) @
     lit ''" \<newline>          class="muted" font-size="'' @
     str E (of_int (smallFontSize L)) @
     lit ''">'' @
     radiusLabel E radiusMiles @
     lit ''</text>''\<close>

definition amenitiesRect :: "engine \<Rightarrow> sizes \<Rightarrow> int \<Rightarrow> jsstring" where
  \<open>amenitiesRect E L w =
     lit ''<rect x="'' @
     str E (of_int (w - amenitiesBoxWidth L - padding L)) @
     lit ''" y="'' @
     str E (of_int (padding L)) @
     lit ''" \<newline>          width="'' @
     str E (of_int (amenitiesBoxWidth L)) @
     lit ''" height="'' @
     str E (of_int (amenitiesBoxHeight L)) @
     lit ''" \<newline>          class="box" rx="'' @
     str E (of_int (borderRadius L)) @
     lit ''" stroke="#E5E7EB" stroke-width="1"/>''\<close>

definition amenitiesTitle :: "engine \<Rightarrow> sizes \<Rightarrow> int \<Rightarrow> jsstring" where
  \<open>amenitiesTitle E L w =
     lit ''<text x="'' @
     str E (of_int (w - amenitiesBoxWidth L - padding L + boxPadding L)) @
     lit ''" y="'' @
     str E (of_int (padding L + boxPadding L + titleFontSize L)) @
     lit ''" \<newline>          class="title" font-size="'' @
     str E (of_int (titleFontSize L)) @
     lit ''">'' @
     lit ''Nearby Amenities</text>''\<close>

definition listingDot :: "engine \<Rightarrow> sizes \<Rightarrow> int \<Rightarrow> jsstring" where
  \<open>listingDot E L w =
     lit ''<circle cx="'' @
     str E (fadd (of_int (w - amenitiesBoxWidth L - padding L + boxPadding L)) (fdiv (of_int (dotSize L)) 2)) @
     lit ''" \<newline>            cy="'' @
     str E (fadd (of_int (padding L + boxPadding L + titleFontSize L + lineHeight L)) (fdiv (of_int (dotSize L)) 4)) @
     lit ''" r="'' @
     str E (fdiv (of_int (dotSize L)) 2) @
     lit ''" fill="'' @
     brandColor @
     lit ''"/>''\<close>

definition listingLabel :: "engine \<Rightarrow> sizes \<Rightarrow> int \<Rightarrow> jsstring" where
  \<open>listingLabel E L w =
     lit ''<text x="'' @
     str E (of_int (w - amenitiesBoxWidth L - padding L + boxPadding L + dotSize L + 6)) @
     lit ''" \<newline>          y="'' @
     str E (fadd (of_int (padding L + boxPadding L + titleFontSize L + lineHeight L)) (fdiv (of_int (dotSize L)) 2)) @
     lit ''" \<newline>          class="text" font-size="'' @
     str E (of_int (textFontSize L)) @
     lit ''">'' @
     lit ''Your Listing</text>''\<close>

definition restaurantsDot :: "engine \<Rightarrow> sizes \<Rightarrow> int \<Rightarrow> jsstring" where
  \<open>restaurantsDot E L w =
     lit ''<circle cx="'' @
     str E (fadd (of_int (w - amenitiesBoxWidth L - padding L + boxPadding L)) (fdiv (of_int (dotSize L)) 2)) @
     lit ''" \<newline>            cy="'' @
     str E (fadd (of_int (padding L + boxPadding L + titleFontSize L + lineHeight L * 2)) (fdiv (of_int (dotSize L)) 4)) @
     lit ''" r="'' @
     str E (fdiv (of_int (dotSize L)) 2) @
     lit ''" fill="#F97316"/>''\<close>

definition restaurantsLabel :: "engine \<Rightarrow> sizes \<Rightarrow> int \<Rightarrow> stats \<Rightarrow> jsstring" where
  \<open>restaurantsLabel E L w st =
     lit ''<text x="'' @
     str E (of_int (w - amenitiesBoxWidth L - padding L + boxPadding L + dotSize L + 6)) @
     lit ''" \<newline>          y="'' @
     str E (fadd (of_int (padding L + boxPadding L + titleFontSize L + lineHeight L * 2)) (fdiv (of_int (dotSize L)) 2)) @
     lit ''" \<newline>          class="text" font-size="'' @
     str E (of_int (textFontSize L)) @
     lit ''">'' @
     lit ''Restaurants: '' @
     numberToString E (restaurants st) @
     lit ''</text>''\<close>

definition groceryDot :: "engine \<Rightarrow> sizes \<Rightarrow> int \<Rightarrow> jsstring" where
  \<open>groceryDot E L w =
     lit ''<circle cx="'' @
     str E (fadd (of_int (w - amenitiesBoxWidth L - padding L + boxPadding L)) (fdiv (of_int (dotSize L)) 2)) @
     lit ''" \<newline>            cy="'' @
     str E (fadd (of_int (padding L + boxPadding L + titleFontSize L + lineHeight L * 3)) (fdiv (of_int (dotSize L)) 4)) @
     lit ''" r="'' @
     str E (fdiv (of_int (dotSize L)) 2) @
     lit ''" fill="#92400E"/>''\<close>

definition groceryLabel :: "engine \<Rightarrow> sizes \<Rightarrow> int \<Rightarrow> stats \<Rightarrow> jsstring" where
  \<open>groceryLabel E L w st =
     lit ''<text x="'' @
     str E (of_int (w - amenitiesBoxWidth L - padding L + boxPadding L + dotSize L + 6)) @
     lit ''" \<newline>          y="'' @
     str E (fadd (of_int (padding L + boxPadding L + titleFontSize L + lineHeight L * 3)) (fdiv (of_int (dotSize L)) 2)) @
     lit ''" \<newline>          class="text" font-size="'' @
     str E (of_int (textFontSize L)) @
     lit ''">'' @
     lit ''Grocery: '' @
     numberToString E (grocery st) @
     lit ''</text>''\<close>

definition shoppingDot :: "engine \<Rightarrow> sizes \<Rightarrow> int \<Rightarrow> jsstring" where
  \<open>shoppingDot E L w =
     lit ''<circle cx="'' @
     str E (fadd (of_int (w - amenitiesBoxWidth L - padding L + boxPadding L)) (fdiv (of_int (dotSize L)) 2)) @
     lit ''" \<newline>            cy="'' @
     str E (fadd (of_int (padding L + boxPadding L + titleFontSize L + lineHeight L * 4)) (fdiv (of_int (dotSize L)) 4)) @
     lit ''" r="'' @
     str E (fdiv (of_int (dotSize L)) 2) @
     lit ''" fill="#A855F7"/>''\<close>

definition shoppingLabel :: "engine \<Rightarrow> sizes \<Rightarrow> int \<Rightarrow> stats \<Rightarrow> jsstring" where
  \<open>shoppingLabel E L w st =
     lit ''<text x="'' @
     str E (of_int (w - amenitiesBoxWidth L - padding L + boxPadding L + dotSize L + 6)) @
     lit ''" \<newline>          y="'' @
     str E (fadd (of_int (padding L + boxPadding L + titleFontSize L + lineHeight L * 4)) (fdiv (of_int (dotSize L)) 2)) @
     lit ''" \<newline>          class="text" font-size="'' @
     str E (of_int (textFontSize L)) @
     lit ''">'' @
     lit ''Shopping: '' @
     numberToString E (shopping st) @
     lit ''</text>''\<close>

definition parksDot :: "engine \<Rightarrow> sizes \<Rightarrow> int \<Rightarrow> jsstring" where
  \<open>parksDot E L w =
     lit ''<circle cx="'' @
     str E (fadd (of_int (w - amenitiesBoxWidth L - padding L + boxPadding L)) (fdiv (of_int (dotSize L)) 2)) @
     lit ''" \<newline>            cy="'' @
     str E (fadd (of_int (padding L + boxPadding L + titleFontSize L + lineHeight L * 5)) (fdiv (of_int (dotSize L)) 4)) @
     lit ''" r="'' @
     str E (fdiv (of_int (dotSize L)) 2) @
     lit ''" fill="#22C55E"/>''\<close>

definition parksLabel :: "engine \<Rightarrow> sizes \<Rightarrow> int \<Rightarrow> stats \<Rightarrow> jsstring" where
  \<open>parksLabel E L w st =
     lit ''<text x="'' @
     str E (of_int (w - amenitiesBoxWidth L - padding L + boxPadding L + dotSize L + 6)) @
     lit ''" \<newline>          y="'' @
     str E (fadd (of_int (padding L + boxPadding L + titleFontSize L + lineHeight L * 5)) (fdiv (of_int (dotSize L)) 2)) @
     lit ''" \<newline>          class="text" font-size="'' @
     str E (of_int (textFontSize L)) @
     lit ''">'' @
     lit ''Parks: '' @
     numberToString E (parks st) @
     lit ''</text>''\<close>

definition closestRect :: "engine \<Rightarrow> sizes \<Rightarrow> int \<Rightarrow> jsstring" where
  \<open>closestRect E L h =
     lit ''<rect x="'' @
     str E (of_int (padding L)) @
     lit ''" y="'' @
     str E (of_int (h - closestBoxHeight L - padding L)) @
     lit ''" \<newline>          width="'' @
     str E (of_int (closestBoxWidth L)) @
     lit ''" height="'' @
     str E (of_int (closestBoxHeight L)) @
     lit ''" \<newline>          class="box" rx="'' @
     str E (of_int (borderRadius L)) @
     lit ''" stroke="#E5E7EB" stroke-width="1"/>''\<close>

definition closestTitle :: "engine \<Rightarrow> sizes \<Rightarrow> int \<Rightarrow> jsstring" where
  \<open>closestTitle E L h =
     lit ''<text x="'' @
     str E (of_int (padding L + boxPadding L)) @
     lit ''" y="'' @
     str E (of_int (h - closestBoxHeight L - padding L + boxPadding L + titleFontSize L)) @
     lit ''" \<newline>          class="title" font-size="'' @
     str E (of_int (titleFontSize L)) @
     lit ''">'' @
     lit ''Closest Locations</text>''\<close>

definition closestEntryLine :: "engine \<Rightarrow> sizes \<Rightarrow> int \<Rightarrow> nat \<Rightarrow> jsstring \<Rightarrow> jsstring" where
  \<open>closestEntryLine E L h i entry =
     lit ''<text x="'' @
     str E (of_int (padding L + boxPadding L)) @
     lit ''" \<newline>          y="'' @
     str E (of_int (h - closestBoxHeight L - padding L + boxPadding L + titleFontSize L + lineHeight L * (int i + 1))) @
     lit ''" \<newline>          class="text" font-size="'' @
     str E (of_int (smallFontSize L)) @
     lit ''">'' @
     entry @
     lit ''</text>''\<close>

definition closestEntryText :: "engine \<Rightarrow> sizes \<Rightarrow> int \<Rightarrow> nat \<Rightarrow> jsstring \<Rightarrow> jsstring" where
  \<open>closestEntryText E L h i entry =
     lit ''\<newline>    '' @
     closestEntryLine E L h i entry @
     lit ''\<newline>    ''\<close>

definition closestGroup :: "engine \<Rightarrow> sizes \<Rightarrow> int \<Rightarrow> jsstring list \<Rightarrow> jsstring" where
  \<open>closestGroup E L h entries =
     lit ''<g>\<newline>    '' @
     closestRect E L h @
     lit ''\<newline>    '' @
     closestTitle E L h @
     lit ''\<newline>    '' @
     concat (map (\<lambda>(i, entry). closestEntryText E L h i entry) (enumerate 0 entries)) @
     lit ''\<newline>  </g>''\<close>

definition closestBox :: "engine \<Rightarrow> sizes \<Rightarrow> int \<Rightarrow> jsstring list \<Rightarrow> jsstring" where
  \<open>closestBox E L h entries =
     (if 0 < length entries then
     lit ''\<newline>  '' @
     closestGroup E L h entries @
     lit ''\<newline>  ''
     else [])\<close>

definition addressBox :: "engine \<Rightarrow> sizes \<Rightarrow> jsstring \<Rightarrow> number \<Rightarrow> jsstring" where
  \<open>addressBox E L addr radiusMiles =
     lit ''<g>\<newline>    '' @
     addressRect E L @
     lit ''\<newline>    '' @
     addressLine1Text E L addr @
     lit ''\<newline>    '' @
     addressLine2Text E L addr @
     lit ''\<newline>    '' @
     radiusText E L radiusMiles @
     lit ''\<newline>  </g>''\<close>

definition amenitiesBox :: "engine \<Rightarrow> sizes \<Rightarrow> int \<Rightarrow> stats \<Rightarrow> jsstring" where
  \<open>amenitiesBox E L w st =
     lit ''<g>\<newline>    '' @
     amenitiesRect E L w @
     lit ''\<newline>    '' @
     amenitiesTitle E L w @
     lit ''\<newline>    \<newline>    '' @
     listingDot E L w @
     lit ''\<newline>    '' @
     listingLabel E L w @
     lit ''\<newline>    \<newline>    '' @
     restaurantsDot E L w @
     lit ''\<newline>    '' @
     restaurantsLabel E L w st @
     lit ''\<newline>    \<newline>    '' @
     groceryDot E L w @
     lit ''\<newline>    '' @
     groceryLabel E L w st @
     lit ''\<newline>    \<newline>    '' @
     shoppingDot E L w @
     lit ''\<newline>    '' @
     shoppingLabel E L w st @
     lit ''\<newline>    \<newline>    '' @
     parksDot E L w @
     lit ''\<newline>    '' @
     parksLabel E L w st @
     lit ''\<newline>  </g>''\<close>

definition overlayTemplate :: "engine \<Rightarrow> sizes \<Rightarrow> int \<Rightarrow> int \<Rightarrow> jsstring \<Rightarrow> number \<Rightarrow> stats \<Rightarrow> jsstring list \<Rightarrow> jsstring" where
  \<open>overlayTemplate E L w h addr radiusMiles st entries =
     lit ''\<newline>'' @
     svgRoot E w h @
     lit ''\<newline>  '' @
     styleBlock @
     lit ''\<newline>\<newline>  <!-- Address Box - Top Left -->\<newline>  '' @
     addressBox E L addr radiusMiles @
     lit ''\<newline>\<newline>  <!-- Nearby Amenities Box - Top Right -->\<newline>  '' @
     amenitiesBox E L w st @
     lit ''\<newline>\<newline>  <!-- Closest Locations Box - Bottom Left -->\<newline>  '' @
     closestBox E L h entries @
     lit ''\<newline></svg>\<newline>  ''\<close>

definition generateOverlaySVG ::
  "engine \<Rightarrow> jsstring \<Rightarrow> number \<Rightarrow> stats \<Rightarrow> poi list \<Rightarrow> int \<Rightarrow> int \<Rightarrow> jsstring" where
  "generateOverlaySVG E addr radiusMiles st pois w h =
     trim (overlayTemplate E (overlaySizes w h) w h addr radiusMiles st (closestEntries E pois))"


section \<open>Compositing (\<open>composeMapImage\<close>)\<close>

type_synonym bytes = "8 word list"

datatype js_error = Error jsstring

text \<open>
  A \<open>fetch\<close> either rejects (transport failure) or resolves to a response, whose
  status is an unsigned 16-bit number, whose \<open>ok\<close> is true for a status from 200 to
  299, and whose body may still fail to load.
\<close>

record response =
  status :: "16 word"
  arrayBuffer :: "js_error + bytes"

definition ok :: "response \<Rightarrow> bool" where
  "ok r \<longleftrightarrow> 200 \<le> status r \<and> status r \<le> 299"

datatype fetched = Rejected js_error | Resolved response

text \<open>The fields of sharp's metadata that are read; either may be undefined.\<close>

record metadata =
  width :: "nat option"
  height :: "nat option"

text \<open>An entry of the list given to sharp's \<open>composite\<close>.\<close>

record overlay =
  input :: bytes
  top_px :: int
  left_px :: int

text \<open>
  The world outside the module: the network, the image library and the buffer
  functions of the runtime.
  \<^item> \<open>fetch url\<close> is \<open>await fetch(url)\<close>;
  \<^item> \<open>sharpMetadata buf\<close> is \<open>await sharp(buf).metadata()\<close>;
  \<^item> \<open>sharpCompositePng buf layers\<close> is
    \<open>await sharp(buf).composite(layers).png().toBuffer()\<close>;
  \<^item> \<open>bufferFrom s\<close> is \<open>Buffer.from(s)\<close> and \<open>toBase64 b\<close> is \<open>b.toString("base64")\<close>.
\<close>

record services =
  fetch :: "jsstring \<Rightarrow> fetched"
  sharpMetadata :: "bytes \<Rightarrow> js_error + metadata"
  sharpCompositePng :: "bytes \<Rightarrow> overlay list \<Rightarrow> js_error + bytes"
  bufferFrom :: "jsstring \<Rightarrow> bytes"
  toBase64 :: "bytes \<Rightarrow> jsstring"

text \<open>\<open>metadata.width || 1280\<close>: undefined and 0 are falsy.\<close>

definition orDefault :: "nat option \<Rightarrow> nat \<Rightarrow> nat" where
  "orDefault v d = (case v of None \<Rightarrow> d | Some n \<Rightarrow> if n = 0 then d else n)"

definition composeMapImage :: "services \<Rightarrow> engine \<Rightarrow> CompositeMapInput \<Rightarrow> js_error + jsstring" where
  "composeMapImage S E inp =
     (case fetch S (mapUrl inp) of
        Rejected e \<Rightarrow> Inl e
      | Resolved response \<Rightarrow>
          if \<not> ok response
          then Inl (Error (lit ''Failed to fetch map image: '' @ str E (of_nat (unat (status response)))))
          else
            (case arrayBuffer response of
               Inl e \<Rightarrow> Inl e
             | Inr mapBuffer \<Rightarrow>
                 (case sharpMetadata S mapBuffer of
                    Inl e \<Rightarrow> Inl e
                  | Inr md \<Rightarrow>
                      let w = orDefault (width md) 1280;
                          h = orDefault (height md) 960;
                          overlaySvg = generateOverlaySVG E (address inp) (radius inp)
                            (stats inp) (closestPOIs inp) (int w) (int h)
                      in (case sharpCompositePng S mapBuffer
                                 [\<lparr>input = bufferFrom S overlaySvg, top_px = 0, left_px = 0\<rparr>] of
                            Inl e \<Rightarrow> Inl e
                          | Inr composited \<Rightarrow> Inr (toBase64 S composited)))))"


section \<open>The image library\<close>

text \<open>
  Modelled from the spec: the image library \<open>sharp\<close>, which the module imports and whose
  code is not in the repository. The spec's compositor decodes the base image to
  determine its pixel width and height, rasterizes the vector scene into a transparent
  layer, alpha-composites the rasterized overlay onto the base image at the given
  offset, and encodes the merged raster as a lossless format. A raster is its width,
  its height and its pixels, a pixel being four 8-bit channels.
\<close>

type_synonym pixel = "32 word"

record raster =
  rwidth :: nat
  rheight :: nat
  pixelAt :: "nat \<Rightarrow> nat \<Rightarrow> pixel"

text \<open>
  Modelled from the spec: the codecs of the library, missing with it. \<open>decode\<close> reads an
  encoded image, a raster image or a vector scene, which it rasterizes; \<open>encodePng\<close>
  writes a raster in the lossless format; \<open>blend\<close> is the alpha blending of one pixel
  of the overlay over one pixel of the base. Reading and writing may fail.
\<close>

record codec =
  decode :: "bytes \<Rightarrow> js_error + raster"
  encodePng :: "raster \<Rightarrow> js_error + bytes"
  blend :: "pixel \<Rightarrow> pixel \<Rightarrow> pixel"

text \<open>
  Modelled from the spec: the alpha-compositing of one rasterized overlay onto the base
  image, its corner at \<open>l\<close> pixels from the left and \<open>t\<close> pixels from the top. The
  canvas is the one of the base; a pixel under the overlay is blended, any other is
  the pixel of the base.
\<close>

definition compositeOnto :: "codec \<Rightarrow> raster \<Rightarrow> raster \<Rightarrow> int \<Rightarrow> int \<Rightarrow> raster" where
  "compositeOnto C base ov t l =
     \<lparr>rwidth = rwidth base,
      rheight = rheight base,
      pixelAt = (\<lambda>x y.
        if l \<le> int x \<and> int x < l + int (rwidth ov) \<and> t \<le> int y \<and> int y < t + int (rheight ov)
        then blend C (pixelAt ov (nat (int x - l)) (nat (int y - t))) (pixelAt base x y)
        else pixelAt base x y)\<rparr>"

text \<open>
  Modelled from the spec: \<open>composite(layers)\<close>, missing with the library. Each entry is
  read and composited in turn at its offset; an overlay must not exceed the canvas of
  the base, so one that is wider or taller than the base is an error.
\<close>

fun compositeAll :: "codec \<Rightarrow> raster \<Rightarrow> overlay list \<Rightarrow> js_error + raster" where
  "compositeAll C base [] = Inr base"
| "compositeAll C base (layer # layers) =
     (case decode C (input layer) of
        Inl e \<Rightarrow> Inl e
      | Inr ov \<Rightarrow>
          if rwidth base < rwidth ov \<or> rheight base < rheight ov
          then Inl (Error (lit ''Image to composite must have same dimensions or smaller''))
          else compositeAll C (compositeOnto C base ov (top_px layer) (left_px layer)) layers)"

text \<open>
  Modelled from the spec: \<open>sharp(buf).metadata()\<close>, missing with the library: the pixel
  width and height of the decoded image.
\<close>

definition sharp_metadata :: "codec \<Rightarrow> bytes \<Rightarrow> js_error + metadata" where
  "sharp_metadata C buf =
     (case decode C buf of
        Inl e \<Rightarrow> Inl e
      | Inr img \<Rightarrow> Inr \<lparr>width = Some (rwidth img), height = Some (rheight img)\<rparr>)"

text \<open>
  Modelled from the spec: \<open>sharp(buf).composite(layers).png().toBuffer()\<close>, missing with
  the library: the image in \<open>buf\<close> is decoded, the layers are composited onto it and the
  merged raster is encoded.
\<close>

definition sharp_composite_png :: "codec \<Rightarrow> bytes \<Rightarrow> overlay list \<Rightarrow> js_error + bytes" where
  "sharp_composite_png C buf layers =
     (case decode C buf of
        Inl e \<Rightarrow> Inl e
      | Inr base \<Rightarrow>
          (case compositeAll C base layers of
             Inl e \<Rightarrow> Inl e
           | Inr merged \<Rightarrow> encodePng C merged))"

text \<open>
  The world whose image library is the one above over the codecs \<open>C\<close>, with \<open>net\<close> for
  the network and \<open>enc\<close> and \<open>b64\<close> for the buffer functions of the runtime.
\<close>

definition sharpServices ::
  "codec \<Rightarrow> (jsstring \<Rightarrow> fetched) \<Rightarrow> (jsstring \<Rightarrow> bytes) \<Rightarrow> (bytes \<Rightarrow> jsstring) \<Rightarrow> services" where
  "sharpServices C net enc b64 =
     \<lparr>fetch = net,
      sharpMetadata = sharp_metadata C,
      sharpCompositePng = sharp_composite_png C,
      bufferFrom = enc,
      toBase64 = b64\<rparr>"


section \<open>The router (\<open>router.ts\<close>)\<close>

text \<open>
  The \<open>compositeMap\<close> mutation: what it returns or throws, and what it writes with
  \<open>console.error\<close>.
\<close>

record compositeMapOutput =
  imageBase64 :: jsstring

record outcome =
  logged :: "js_error list"
  result :: "js_error + compositeMapOutput"

definition compositeMap :: "services \<Rightarrow> engine \<Rightarrow> CompositeMapInput \<Rightarrow> outcome" where
  "compositeMap S E inp =
     (case composeMapImage S E inp of
        Inr composedImageBase64 \<Rightarrow>
          \<lparr>logged = [], result = Inr \<lparr>imageBase64 = composedImageBase64\<rparr>\<rparr>
      | Inl error \<Rightarrow>
          \<lparr>logged = [error], result = Inl (Error (lit ''Failed to compose map image''))\<rparr>)"

text \<open>
  \<open>process.env\<close>, and \<open>process.env.X || ""\<close>: an unset variable and an empty one both
  give the empty string.
\<close>

type_synonym process_env = "jsstring \<rightharpoonup> jsstring"

definition orEmpty :: "jsstring option \<Rightarrow> jsstring" where
  "orEmpty v = (case v of None \<Rightarrow> [] | Some s \<Rightarrow> if s = [] then [] else s)"

definition GOOGLE_PLACES_API_KEY :: "process_env \<Rightarrow> jsstring" where
  "GOOGLE_PLACES_API_KEY env = orEmpty (env (lit ''GOOGLE_PLACES_API_KEY''))"

definition MAPBOX_ACCESS_TOKEN :: "process_env \<Rightarrow> jsstring" where
  "MAPBOX_ACCESS_TOKEN env = orEmpty (env (lit ''MAPBOX_ACCESS_TOKEN''))"

record apiKeys =
  googlePlacesConfigured :: bool
  mapboxConfigured :: bool
  googlePlacesKey :: jsstring
  mapboxToken :: jsstring

text \<open>\<open>!!s\<close> on a string is true when the string is not empty.\<close>

definition getApiKeys :: "process_env \<Rightarrow> apiKeys" where
  "getApiKeys env =
     \<lparr>googlePlacesConfigured = (GOOGLE_PLACES_API_KEY env \<noteq> []),
      mapboxConfigured = (MAPBOX_ACCESS_TOKEN env \<noteq> []),
      googlePlacesKey = GOOGLE_PLACES_API_KEY env,
      mapboxToken = MAPBOX_ACCESS_TOKEN env\<rparr>"



section \<open>Reading a rendered number\<close>




section \<open>Sample inputs\<close>

text \<open>
  An engine given by a small table, for evaluating the definitions on concrete inputs:
  \<open>Number::toString\<close> of \<open>10^21\<close> is \<open>1e+21\<close> and of \<open>2.5\<close> is \<open>2.5\<close>, as in every
  ECMAScript engine; the other texts are fixed strings, and no evaluation below
  depends on them.
\<close>

definition sampleEngine :: engine where
  "sampleEngine =
     \<lparr>shortestDigits =
        (\<lambda>x. if x = 10 ^ 21 then lit ''1e+21'' else if x = 5 / 2 then lit ''2.5'' else lit ''0.5''),
      inheritedText = (\<lambda>k. lit ''[object Object]'')\<rparr>"

definition samplePois :: "poi list" where
  "samplePois =
     [\<lparr>name = lit ''Corner Bakery'', category = lit ''restaurant'', distance = Num (3 / 10)\<rparr>,
      \<lparr>name = lit ''The Extraordinarily Long Named Market'', category = lit ''grocery'',
        distance = Num (5 / 4)\<rparr>,
      \<lparr>name = lit ''Mall'', category = lit ''shopping'', distance = Num 2\<rparr>,
      \<lparr>name = lit ''Riverside'', category = lit ''park'', distance = Num (241 / 100)\<rparr>,
      \<lparr>name = lit ''Fifth'', category = lit ''cafe'', distance = Num 3\<rparr>]"

definition sampleInput :: CompositeMapInput where
  "sampleInput =
     \<lparr>mapUrl = lit ''https://maps.example/static.png'',
      address = lit ''1 Main St'',
      radius = Num 1,
      stats = \<lparr>restaurants = Num 0, grocery = Num 0, shopping = Num 0, parks = Num 0\<rparr>,
      closestPOIs = samplePois\<rparr>"

text \<open>
  A world with fixed outcomes: every fetch gives \<open>f\<close>, every metadata read gives \<open>m\<close>
  and every compositing gives \<open>c\<close>. Its two buffer functions keep the low byte of each
  code unit and widen each byte; they stand for the real encodings only in that they
  are functions.
\<close>

definition fixedServices :: "fetched \<Rightarrow> js_error + metadata \<Rightarrow> js_error + bytes \<Rightarrow> services" where
  "fixedServices f m c =
     \<lparr>fetch = (\<lambda>url. f),
      sharpMetadata = (\<lambda>buf. m),
      sharpCompositePng = (\<lambda>buf layers. c),
      bufferFrom = map ucast,
      toBase64 = map ucast\<rparr>"

definition okResponse :: fetched where
  "okResponse = Resolved \<lparr>status = 200, arrayBuffer = Inr [0x89, 0x50, 0x4E, 0x47]\<rparr>"

definition notFoundResponse :: fetched where
  "notFoundResponse = Resolved \<lparr>status = 404, arrayBuffer = Inr []\<rparr>"

definition sampleEnvA :: process_env where
  "sampleEnvA = map_of [(lit ''GOOGLE_PLACES_API_KEY'', lit ''key-A''),
                        (lit ''MAPBOX_ACCESS_TOKEN'', lit ''pk.token'')]"

definition sampleEnvB :: process_env where
  "sampleEnvB = map_of [(lit ''GOOGLE_PLACES_API_KEY'', lit ''key-B''),
                        (lit ''MAPBOX_ACCESS_TOKEN'', lit ''pk.token'')]"

definition offlineWorld :: services where
  "offlineWorld =
     fixedServices (Rejected (Error (lit ''fetch failed'')))
       (Inl (Error (lit ''no image''))) (Inl (Error (lit ''no image'')))"

definition notFoundWorld :: services where
  "notFoundWorld =
     fixedServices notFoundResponse (Inl (Error (lit ''no image''))) (Inl (Error (lit ''no image'')))"

definition compositeFailWorld :: services where
  "compositeFailWorld =
     fixedServices okResponse (Inr \<lparr>width = Some 800, height = Some 600\<rparr>)
       (Inl (Error (lit ''Image to composite must have same dimensions or smaller'')))"


text \<open>
  Sample codecs, for evaluating the image library on concrete buffers. A raster image
  is four signature bytes and the width and the height as two bytes each; it decodes
  to an opaque white raster of that size. A vector scene is a text that opens with
  \<open><svg width="W" height="H"\<close>; it is rasterized to a transparent layer of \<open>W\<close> by \<open>H\<close>
  pixels. Encoding writes the signature and the size. A pixel of the overlay whose
  highest channel is 0 leaves the pixel of the base as it is.
\<close>

fun readDigits :: "bytes \<Rightarrow> nat \<Rightarrow> nat \<times> bytes" where
  "readDigits [] acc = (acc, [])"
| "readDigits (c # cs) acc =
     (if 0x30 \<le> c \<and> c \<le> 0x39 then readDigits cs (10 * acc + (unat c - 48)) else (acc, c # cs))"

definition svgSize :: "bytes \<Rightarrow> (nat \<times> nat) option" where
  \<open>svgSize b =
     (let p1 = map of_char ''<svg width="''; p2 = map of_char ''" height="''
      in if take (length p1) b \<noteq> p1 then None
         else
           (case readDigits (drop (length p1) b) 0 of
              (w, r1) \<Rightarrow>
                if take (length p2) r1 \<noteq> p2 then None
                else
                  (case readDigits (drop (length p2) r1) 0 of
                     (h, r2) \<Rightarrow> if take 1 r2 = map of_char ''"'' then Some (w, h) else None)))\<close>

definition sampleDecode :: "bytes \<Rightarrow> js_error + raster" where
  "sampleDecode b =
     (if take 4 b = [0x89, 0x50, 0x4E, 0x47] \<and> length b = 8
      then Inr \<lparr>rwidth = 256 * unat (b ! 4) + unat (b ! 5),
                rheight = 256 * unat (b ! 6) + unat (b ! 7),
                pixelAt = (\<lambda>x y. 0xFFFFFFFF)\<rparr>
      else
        (case svgSize b of
           Some (w, h) \<Rightarrow> Inr \<lparr>rwidth = w, rheight = h, pixelAt = (\<lambda>x y. 0)\<rparr>
         | None \<Rightarrow> Inl (Error (lit ''Input buffer contains unsupported image format''))))"

definition sampleEncode :: "raster \<Rightarrow> js_error + bytes" where
  "sampleEncode r =
     (if rwidth r < 65536 \<and> rheight r < 65536
      then Inr [0x89, 0x50, 0x4E, 0x47,
                of_nat (rwidth r div 256), of_nat (rwidth r mod 256),
                of_nat (rheight r div 256), of_nat (rheight r mod 256)]
      else Inl (Error (lit ''Processed image is too large'')))"

definition sampleCodec :: codec where
  "sampleCodec =
     \<lparr>decode = sampleDecode,
      encodePng = sampleEncode,
      blend = (\<lambda>p q. if p < 0x1000000 then q else p)\<rparr>"

definition sizedResponse :: response where
  "sizedResponse =
     \<lparr>status = 200, arrayBuffer = Inr [0x89, 0x50, 0x4E, 0x47, 0x03, 0x20, 0x02, 0x58]\<rparr>"

definition sharpWorld :: services where
  "sharpWorld = sharpServices sampleCodec (\<lambda>url. Resolved sizedResponse) (map ucast) (map ucast)"



section \<open>Strings\<close>




lemma trim_core:
  assumes ws1: "\<forall>c\<in>set ws1. isWhiteSpace c"
    and ws2: "\<forall>c\<in>set ws2. isWhiteSpace c"
    and ne: "body \<noteq> []"
    and hd_ok: "\<not> isWhiteSpace (hd body)"
    and last_ok: "\<not> isWhiteSpace (last body)"
  shows "trim (ws1 @ body @ ws2) = body"
proof -
  have lead: "dropWhile isWhiteSpace (ws1 @ body @ ws2) = body @ ws2"
  proof -
    have "dropWhile isWhiteSpace (ws1 @ body @ ws2) = dropWhile isWhiteSpace (body @ ws2)"
      by (rule dropWhile_append2) (use ws1 in simp)
    also have "\<dots> = body @ ws2"
      using ne hd_ok by (cases body) simp_all
    finally show ?thesis .
  qed
  have trail: "dropWhile isWhiteSpace (rev ws2 @ rev body) = rev body"
  proof -
    have "dropWhile isWhiteSpace (rev ws2 @ rev body) = dropWhile isWhiteSpace (rev body)"
      by (rule dropWhile_append2) (use ws2 in simp)
    also have "\<dots> = rev body"
      using ne last_ok by (cases "rev body") (simp_all add: hd_rev)
    finally show ?thesis .
  qed
  show ?thesis
    by (simp add: trim_def lead trail)
qed

lemma sub_here: "sublist x (x @ r)"
  by simp

lemma sub_skip: "sublist x r \<Longrightarrow> sublist x (a @ r)"
  by (metis sublist_append_leftI sublist_order.order_trans)


section \<open>The rendered overlay\<close>

lemma svgRoot_hd: "svgRoot E w h \<noteq> [] \<and> hd (svgRoot E w h) = 0x3C"
  by (simp add: svgRoot_def lit_def)

text \<open>The overlay without the \<open>trim\<close>: it starts at the root element and ends with
  the closing tag.\<close>

lemma generateOverlaySVG_unfold:
  \<open>generateOverlaySVG E addr radiusMiles st pois w h =
     svgRoot E w h @
     lit ''\<newline>  '' @
     styleBlock @
     lit ''\<newline>\<newline>  <!-- Address Box - Top Left -->\<newline>  '' @
     addressBox E (overlaySizes w h) addr radiusMiles @
     lit ''\<newline>\<newline>  <!-- Nearby Amenities Box - Top Right -->\<newline>  '' @
     amenitiesBox E (overlaySizes w h) w st @
     lit ''\<newline>\<newline>  <!-- Closest Locations Box - Bottom Left -->\<newline>  '' @
     closestBox E (overlaySizes w h) h (closestEntries E pois) @
     lit ''\<newline></svg>''\<close>
  (is "_ = ?body")
proof -
  have split: \<open>lit ''\<newline></svg>\<newline>  '' = lit ''\<newline></svg>'' @ lit ''\<newline>  ''\<close>
    by (simp add: lit_def)
  have tpl: "overlayTemplate E (overlaySizes w h) w h addr radiusMiles st (closestEntries E pois)
      = lit ''\<newline>'' @ ?body @ lit ''\<newline>  ''"
    by (simp only: overlayTemplate_def split append_assoc)
  have ne: "?body \<noteq> []"
    using svgRoot_hd [of E w h] by simp
  have hd_ok: "\<not> isWhiteSpace (hd ?body)"
    using svgRoot_hd [of E w h] by (simp add: isWhiteSpace_def)
  have "last ?body = last (lit ''\<newline></svg>'')"
    by (simp add: lit_def)
  then have last_ok: "\<not> isWhiteSpace (last ?body)"
    by (simp add: lit_def isWhiteSpace_def)
  have "trim (lit ''\<newline>'' @ ?body @ lit ''\<newline>  '') = ?body"
    by (rule trim_core [OF _ _ ne hd_ok last_ok]) (simp_all add: lit_def isWhiteSpace_def)
  then show ?thesis
    by (simp only: generateOverlaySVG_def tpl)
qed

lemma addressBox_in_svg:
  "sublist (addressBox E (overlaySizes w h) addr radiusMiles)
     (generateOverlaySVG E addr radiusMiles st pois w h)"
  unfolding generateOverlaySVG_unfold
  by (rule sub_here | rule sub_skip)+

lemma amenitiesBox_in_svg:
  "sublist (amenitiesBox E (overlaySizes w h) w st)
     (generateOverlaySVG E addr radiusMiles st pois w h)"
  unfolding generateOverlaySVG_unfold
  by (rule sub_here | rule sub_skip)+



section \<open>Address box\<close>





lemma radiusLabel_in_box:
  \<open>sublist (lit ''">'' @ radiusLabel E radiusMiles @ lit ''</text>'') (addressBox E L addr radiusMiles)\<close>
proof -
  have \<open>sublist (lit ''">'' @ radiusLabel E radiusMiles @ lit ''</text>'') (radiusText E L radiusMiles)\<close>
    unfolding radiusText_def by (rule sublist_order.order_refl | rule sub_skip)+
  moreover have "sublist (radiusText E L radiusMiles) (addressBox E L addr radiusMiles)"
    unfolding addressBox_def by (rule sub_here | rule sub_skip)+
  ultimately show ?thesis
    by (rule sublist_order.order_trans)
qed

lemma radiusLabel_eq:
  "radiusLabel E r =
     numberToString E r @ (if r = Num 1 then lit '' mile radius'' else lit '' miles radius'')"
  by (simp add: radiusLabel_def lit_def)

lemma decimalDigits_small: "n < 10 \<Longrightarrow> decimalDigits n = [digitChar n]"
  by (simp add: decimalDigits.simps)

lemma numberToString_0: "numberToString E (Num 0) = lit ''0''"
  by (simp add: isSafeInteger_def decimalDigits_small digitChar_def lit_def)

lemma numberToString_1: "numberToString E (Num 1) = lit ''1''"
  by (simp add: isSafeInteger_def decimalDigits_small digitChar_def lit_def)

lemma numberToString_frac: "numberToString E (Num (5 / 2)) = shortestDigits E (5 / 2)"
proof -
  have "\<lfloor>5 / 2 :: rat\<rfloor> = 2"
    by (rule floor_unique) simp_all
  then have "\<not> isSafeInteger (5 / 2)"
    by (simp add: isSafeInteger_def)
  then show ?thesis
    by simp
qed

text \<open>
  C6. The radius label is the radius as a number, then the unit and the word radius:
  the unit is the singular for the radius 1 and the plural for every other number,
  0 and the fraction 2.5 included (and also for a value that is not a number): with
  the engine's text 2.5 for that fraction, the label reads \<open>2.5 miles radius\<close>. The label
  is the content of a text element of the rendered overlay.
\<close>

theorem C6_radius_unit:
  \<open>radiusLabel E r =
     numberToString E r @ (if r = Num 1 then lit '' mile radius'' else lit '' miles radius'')
   \<and> radiusLabel E (Num 1) = lit ''1 mile radius''
   \<and> radiusLabel E (Num 0) = lit ''0 miles radius''
   \<and> radiusLabel E (Num (5 / 2)) = shortestDigits E (5 / 2) @ lit '' miles radius''
   \<and> radiusLabel sampleEngine (Num (5 / 2)) = lit ''2.5 miles radius''
   \<and> radiusLabel E NaN = lit ''NaN miles radius''
   \<and> sublist (lit ''">'' @ radiusLabel E r @ lit ''</text>'')
        (generateOverlaySVG E addr r st pois w h)\<close>
proof -
  have one: "radiusLabel E (Num 1) = lit ''1 mile radius''"
    by (simp only: radiusLabel_eq numberToString_1) (simp add: lit_def)
  have zero: "radiusLabel E (Num 0) = lit ''0 miles radius''"
    by (simp only: radiusLabel_eq numberToString_0) (simp add: lit_def)
  have frac: "radiusLabel E (Num (5 / 2)) = shortestDigits E (5 / 2) @ lit '' miles radius''"
    by (simp only: radiusLabel_eq numberToString_frac) simp
  have sample: "radiusLabel sampleEngine (Num (5 / 2)) = lit ''2.5 miles radius''"
    by (simp only: radiusLabel_eq numberToString_frac) (simp add: sampleEngine_def lit_def)
  have nan: "radiusLabel E NaN = lit ''NaN miles radius''"
    by (simp add: radiusLabel_eq) (simp add: lit_def)
  have shown: \<open>sublist (lit ''">'' @ radiusLabel E r @ lit ''</text>'')
      (generateOverlaySVG E addr r st pois w h)\<close>
    using radiusLabel_in_box addressBox_in_svg by (rule sublist_order.order_trans)
  show ?thesis
    using radiusLabel_eq one zero frac sample nan shown by blast
qed


section \<open>Binary64 rounding\<close>

lemma pow2_powi: "pow2 e = 2 powi e"
  by (simp add: pow2_def power_int_def power_divide)

lemma pow2_pos: "0 < pow2 e"
  by (simp add: pow2_powi)

lemma pow2_add: "pow2 (a + b) = pow2 a * pow2 b"
  by (simp add: pow2_powi power_int_add)

lemma pow2_nat: "0 \<le> k \<Longrightarrow> pow2 k = 2 ^ nat k"
  by (simp add: pow2_def)

lemma pow2_mono: "a \<le> b \<Longrightarrow> pow2 a \<le> pow2 b"
  by (simp add: pow2_powi power_int_increasing)

lemma bitlen_rat_bounds:
  assumes "0 < (p::int)"
  shows "pow2 (bitlen p - 1) \<le> of_int p" and "of_int p < pow2 (bitlen p)"
proof -
  have b: "2 ^ nat (bitlen p - 1) \<le> p" "p < 2 ^ nat (bitlen p)"
    using bitlen_bounds [OF assms] by simp_all
  have ge1: "1 \<le> bitlen p"
    using assms by (simp add: bitlen_alt_def)
  have "(of_int (2 ^ nat (bitlen p - 1)) :: rat) \<le> of_int p"
    using b(1) by (simp only: of_int_le_iff)
  then show "pow2 (bitlen p - 1) \<le> of_int p"
    using ge1 by (simp add: pow2_nat)
  have "(of_int p :: rat) < of_int (2 ^ nat (bitlen p))"
    using b(2) by (simp only: of_int_less_iff)
  then show "of_int p < pow2 (bitlen p)"
    using ge1 by (simp add: pow2_nat)
qed

lemma ilog2_bounds:
  assumes "0 < x"
  shows "pow2 (ilog2 x) \<le> x \<and> x < pow2 (ilog2 x + 1)"
proof -
  obtain p q where pq: "quotient_of x = (p, q)"
    by (cases "quotient_of x")
  have q: "0 < q"
    using pq by (rule quotient_of_denom_pos)
  have x: "x = of_int p / of_int q"
    using pq by (rule quotient_of_div)
  have p: "0 < p"
    using assms q x by (simp add: zero_less_divide_iff)
  let ?e = "bitlen p - bitlen q"
  have lo: "pow2 (?e - 1) \<le> x"
  proof -
    have "pow2 (?e - 1) * of_int q \<le> pow2 (?e - 1) * pow2 (bitlen q)"
      using bitlen_rat_bounds(2) [OF q] pow2_pos [of "?e - 1"] by simp
    also have "\<dots> = pow2 (bitlen p - 1)"
      by (simp add: pow2_add [symmetric])
    also have "\<dots> \<le> of_int p"
      by (rule bitlen_rat_bounds(1) [OF p])
    finally show ?thesis
      using q by (simp add: x pos_le_divide_eq)
  qed
  have hi: "x < pow2 (?e + 1)"
  proof -
    have "of_int p < pow2 (bitlen p)"
      by (rule bitlen_rat_bounds(2) [OF p])
    also have "\<dots> = pow2 (?e + 1) * pow2 (bitlen q - 1)"
      by (simp add: pow2_add [symmetric])
    also have "\<dots> \<le> pow2 (?e + 1) * of_int q"
      using bitlen_rat_bounds(1) [OF q] pow2_pos [of "?e + 1"] by simp
    finally show ?thesis
      using q by (simp add: x pos_divide_less_eq)
  qed
  show ?thesis
  proof (cases "pow2 ?e \<le> x")
    case True
    then show ?thesis
      using hi by (simp add: ilog2_def pq)
  next
    case False
    then show ?thesis
      using lo by (simp add: ilog2_def pq)
  qed
qed

lemma roundHalfEven_near: "\<bar>of_int (roundHalfEven y) - y\<bar> \<le> 1 / 2"
proof -
  have "of_int \<lfloor>y\<rfloor> \<le> y" "y < of_int \<lfloor>y\<rfloor> + 1"
    by linarith+
  then show ?thesis
    unfolding roundHalfEven_def Let_def by (auto split: if_splits)
qed

lemma abs_scale:
  fixes m a u :: rat
  assumes "0 < u"
  shows "\<bar>m * u - a\<bar> = \<bar>m - a / u\<bar> * u"
proof -
  have "m * u - a = (m - a / u) * u"
    using assms by (simp add: field_simps)
  then show ?thesis
    using assms by (simp only: abs_mult abs_of_pos)
qed

lemma abs_sgn_diff:
  fixes x v :: rat
  assumes "x \<noteq> 0"
  shows "\<bar>sgn x * v - x\<bar> = \<bar>v - \<bar>x\<bar>\<bar>"
  using assms by (auto simp: sgn_if abs_if)

lemma fl_error:
  assumes "pow2 (- 1022) \<le> \<bar>x\<bar>"
  shows "\<bar>fl x - x\<bar> \<le> \<bar>x\<bar> / 2 ^ 53"
proof -
  let ?a = "\<bar>x\<bar>"
  have a: "0 < ?a"
    using assms pow2_pos [of "- 1022"] by linarith
  then have x0: "x \<noteq> 0"
    by simp
  let ?e = "ilog2 ?a"
  have e: "pow2 ?e \<le> ?a" "?a < pow2 (?e + 1)"
    using ilog2_bounds [OF a] by simp_all
  have "pow2 (- 1022) < pow2 (?e + 1)"
    using assms e(2) by linarith
  then have "- 1022 < ?e + 1"
    using pow2_mono [of "?e + 1" "- 1022"] by linarith
  then have u: "max (?e - 52) (- 1074) = ?e - 52"
    by simp
  let ?u = "pow2 (?e - 52)"
  let ?m = "roundHalfEven (?a / ?u)"
  have fl: "fl x = sgn x * of_int ?m * ?u"
    using x0 by (simp add: fl_def Let_def u)
  have upos: "0 < ?u"
    by (rule pow2_pos)
  have "\<bar>of_int ?m * ?u - ?a\<bar> = \<bar>of_int ?m - ?a / ?u\<bar> * ?u"
    using upos by (rule abs_scale)
  also have "\<dots> \<le> 1 / 2 * ?u"
    using roundHalfEven_near [of "?a / ?u"] upos by (simp add: mult_right_mono)
  also have "\<dots> = pow2 ?e / 2 ^ 53"
  proof -
    have "pow2 ?e = pow2 (?e - 52) * pow2 52"
      by (simp add: pow2_add [symmetric])
    then show ?thesis
      by (simp add: pow2_nat)
  qed
  also have "\<dots> \<le> ?a / 2 ^ 53"
    using e(1) by (simp add: divide_right_mono)
  finally have near: "\<bar>of_int ?m * ?u - ?a\<bar> \<le> ?a / 2 ^ 53" .
  have "\<bar>fl x - x\<bar> = \<bar>of_int ?m * ?u - ?a\<bar>"
    using abs_sgn_diff [OF x0, of "of_int ?m * ?u"] by (simp only: fl mult.assoc)
  then show ?thesis
    using near by simp
qed


section \<open>Amenities legend\<close>

lemma listingLabel_in_box:
  \<open>sublist (lit ''Your Listing</text>'') (amenitiesBox E L w st)\<close>
proof -
  have \<open>sublist (lit ''Your Listing</text>'') (listingLabel E L w)\<close>
    unfolding listingLabel_def by (rule sublist_order.order_refl | rule sub_skip)+
  moreover have "sublist (listingLabel E L w) (amenitiesBox E L w st)"
    unfolding amenitiesBox_def by (rule sub_here | rule sub_skip)+
  ultimately show ?thesis
    by (rule sublist_order.order_trans)
qed

lemma restaurantsLabel_in_box:
  \<open>sublist (lit ''Restaurants: '' @ numberToString E (restaurants st) @ lit ''</text>'')
     (amenitiesBox E L w st)\<close>
proof -
  have \<open>sublist (lit ''Restaurants: '' @ numberToString E (restaurants st) @ lit ''</text>'')
      (restaurantsLabel E L w st)\<close>
    unfolding restaurantsLabel_def by (rule sublist_order.order_refl | rule sub_skip)+
  moreover have "sublist (restaurantsLabel E L w st) (amenitiesBox E L w st)"
    unfolding amenitiesBox_def by (rule sub_here | rule sub_skip)+
  ultimately show ?thesis
    by (rule sublist_order.order_trans)
qed

lemma groceryLabel_in_box:
  \<open>sublist (lit ''Grocery: '' @ numberToString E (grocery st) @ lit ''</text>'')
     (amenitiesBox E L w st)\<close>
proof -
  have \<open>sublist (lit ''Grocery: '' @ numberToString E (grocery st) @ lit ''</text>'')
      (groceryLabel E L w st)\<close>
    unfolding groceryLabel_def by (rule sublist_order.order_refl | rule sub_skip)+
  moreover have "sublist (groceryLabel E L w st) (amenitiesBox E L w st)"
    unfolding amenitiesBox_def by (rule sub_here | rule sub_skip)+
  ultimately show ?thesis
    by (rule sublist_order.order_trans)
qed

lemma shoppingLabel_in_box:
  \<open>sublist (lit ''Shopping: '' @ numberToString E (shopping st) @ lit ''</text>'')
     (amenitiesBox E L w st)\<close>
proof -
  have \<open>sublist (lit ''Shopping: '' @ numberToString E (shopping st) @ lit ''</text>'')
      (shoppingLabel E L w st)\<close>
    unfolding shoppingLabel_def by (rule sublist_order.order_refl | rule sub_skip)+
  moreover have "sublist (shoppingLabel E L w st) (amenitiesBox E L w st)"
    unfolding amenitiesBox_def by (rule sub_here | rule sub_skip)+
  ultimately show ?thesis
    by (rule sublist_order.order_trans)
qed

lemma parksLabel_in_box:
  \<open>sublist (lit ''Parks: '' @ numberToString E (parks st) @ lit ''</text>'')
     (amenitiesBox E L w st)\<close>
proof -
  have \<open>sublist (lit ''Parks: '' @ numberToString E (parks st) @ lit ''</text>'')
      (parksLabel E L w st)\<close>
    unfolding parksLabel_def by (rule sublist_order.order_refl | rule sub_skip)+
  moreover have "sublist (parksLabel E L w st) (amenitiesBox E L w st)"
    unfolding amenitiesBox_def by (rule sub_here | rule sub_skip)+
  ultimately show ?thesis
    by (rule sublist_order.order_trans)
qed

lemma dots_in_box:
  "sublist (listingDot E L w) (amenitiesBox E L w st)"
  "sublist (restaurantsDot E L w) (amenitiesBox E L w st)"
  "sublist (groceryDot E L w) (amenitiesBox E L w st)"
  "sublist (shoppingDot E L w) (amenitiesBox E L w st)"
  "sublist (parksDot E L w) (amenitiesBox E L w st)"
  unfolding amenitiesBox_def by (rule sub_here | rule sub_skip)+

lemma in_svg_via_amenities:
  "sublist x (amenitiesBox E (overlaySizes w h) w st) \<Longrightarrow>
   sublist x (generateOverlaySVG E addr r st pois w h)"
  by (rule sublist_order.order_trans [OF _ amenitiesBox_in_svg])

lemma zero_labels:
  "lit ''Restaurants: '' @ numberToString E (Num 0) @ lit ''</text>'' = lit ''Restaurants: 0</text>''"
  "lit ''Grocery: '' @ numberToString E (Num 0) @ lit ''</text>'' = lit ''Grocery: 0</text>''"
  "lit ''Shopping: '' @ numberToString E (Num 0) @ lit ''</text>'' = lit ''Shopping: 0</text>''"
  "lit ''Parks: '' @ numberToString E (Num 0) @ lit ''</text>'' = lit ''Parks: 0</text>''"
  by (simp_all only: numberToString_0) (simp_all add: lit_def)

lemma zero_stats_labels:
  "sublist (lit ''Restaurants: 0</text>'') (generateOverlaySVG E addr r \<lparr>restaurants = Num 0, grocery = Num 0, shopping = Num 0, parks = Num 0\<rparr> pois w h)"
  "sublist (lit ''Grocery: 0</text>'') (generateOverlaySVG E addr r \<lparr>restaurants = Num 0, grocery = Num 0, shopping = Num 0, parks = Num 0\<rparr> pois w h)"
  "sublist (lit ''Shopping: 0</text>'') (generateOverlaySVG E addr r \<lparr>restaurants = Num 0, grocery = Num 0, shopping = Num 0, parks = Num 0\<rparr> pois w h)"
  "sublist (lit ''Parks: 0</text>'') (generateOverlaySVG E addr r \<lparr>restaurants = Num 0, grocery = Num 0, shopping = Num 0, parks = Num 0\<rparr> pois w h)"
proof -
  have st: "restaurants \<lparr>restaurants = Num 0, grocery = Num 0, shopping = Num 0, parks = Num 0\<rparr> = Num 0" "grocery \<lparr>restaurants = Num 0, grocery = Num 0, shopping = Num 0, parks = Num 0\<rparr> = Num 0" "shopping \<lparr>restaurants = Num 0, grocery = Num 0, shopping = Num 0, parks = Num 0\<rparr> = Num 0" "parks \<lparr>restaurants = Num 0, grocery = Num 0, shopping = Num 0, parks = Num 0\<rparr> = Num 0"
    by simp_all
  show "sublist (lit ''Restaurants: 0</text>'') (generateOverlaySVG E addr r \<lparr>restaurants = Num 0, grocery = Num 0, shopping = Num 0, parks = Num 0\<rparr> pois w h)"
    using in_svg_via_amenities [OF restaurantsLabel_in_box,
        where E = E and w = w and h = h and addr = addr and r = r and pois = pois
          and st = "\<lparr>restaurants = Num 0, grocery = Num 0, shopping = Num 0, parks = Num 0\<rparr>"]
    by (simp only: st zero_labels)
  show "sublist (lit ''Grocery: 0</text>'') (generateOverlaySVG E addr r \<lparr>restaurants = Num 0, grocery = Num 0, shopping = Num 0, parks = Num 0\<rparr> pois w h)"
    using in_svg_via_amenities [OF groceryLabel_in_box,
        where E = E and w = w and h = h and addr = addr and r = r and pois = pois
          and st = "\<lparr>restaurants = Num 0, grocery = Num 0, shopping = Num 0, parks = Num 0\<rparr>"]
    by (simp only: st zero_labels)
  show "sublist (lit ''Shopping: 0</text>'') (generateOverlaySVG E addr r \<lparr>restaurants = Num 0, grocery = Num 0, shopping = Num 0, parks = Num 0\<rparr> pois w h)"
    using in_svg_via_amenities [OF shoppingLabel_in_box,
        where E = E and w = w and h = h and addr = addr and r = r and pois = pois
          and st = "\<lparr>restaurants = Num 0, grocery = Num 0, shopping = Num 0, parks = Num 0\<rparr>"]
    by (simp only: st zero_labels)
  show "sublist (lit ''Parks: 0</text>'') (generateOverlaySVG E addr r \<lparr>restaurants = Num 0, grocery = Num 0, shopping = Num 0, parks = Num 0\<rparr> pois w h)"
    using in_svg_via_amenities [OF parksLabel_in_box,
        where E = E and w = w and h = h and addr = addr and r = r and pois = pois
          and st = "\<lparr>restaurants = Num 0, grocery = Num 0, shopping = Num 0, parks = Num 0\<rparr>"]
    by (simp only: st zero_labels)
qed

text \<open>
  C8. Whatever the counts are, the rendered overlay contains the five legend entries:
  the dot and the label of the listing marker, and the dot and the count line of
  restaurants, grocery, shopping and parks, each count line ending with the count as a
  number. The count 0 is the text 0: with all four counts 0 the four count lines read
  \<open>Restaurants: 0\<close>, \<open>Grocery: 0\<close>, \<open>Shopping: 0\<close> and \<open>Parks: 0\<close>.
\<close>

theorem C8_legend_entries:
  \<open>sublist (listingDot E (overlaySizes w h) w) (generateOverlaySVG E addr r st pois w h)
   \<and> sublist (lit ''Your Listing</text>'') (generateOverlaySVG E addr r st pois w h)
   \<and> sublist (restaurantsDot E (overlaySizes w h) w) (generateOverlaySVG E addr r st pois w h)
   \<and> sublist (lit ''Restaurants: '' @ numberToString E (restaurants st) @ lit ''</text>'')
        (generateOverlaySVG E addr r st pois w h)
   \<and> sublist (groceryDot E (overlaySizes w h) w) (generateOverlaySVG E addr r st pois w h)
   \<and> sublist (lit ''Grocery: '' @ numberToString E (grocery st) @ lit ''</text>'')
        (generateOverlaySVG E addr r st pois w h)
   \<and> sublist (shoppingDot E (overlaySizes w h) w) (generateOverlaySVG E addr r st pois w h)
   \<and> sublist (lit ''Shopping: '' @ numberToString E (shopping st) @ lit ''</text>'')
        (generateOverlaySVG E addr r st pois w h)
   \<and> sublist (parksDot E (overlaySizes w h) w) (generateOverlaySVG E addr r st pois w h)
   \<and> sublist (lit ''Parks: '' @ numberToString E (parks st) @ lit ''</text>'')
        (generateOverlaySVG E addr r st pois w h)
   \<and> numberToString E (Num 0) = lit ''0''
   \<and> sublist (lit ''Restaurants: 0</text>'') (generateOverlaySVG E addr r \<lparr>restaurants = Num 0, grocery = Num 0, shopping = Num 0, parks = Num 0\<rparr> pois w h)
   \<and> sublist (lit ''Grocery: 0</text>'') (generateOverlaySVG E addr r \<lparr>restaurants = Num 0, grocery = Num 0, shopping = Num 0, parks = Num 0\<rparr> pois w h)
   \<and> sublist (lit ''Shopping: 0</text>'') (generateOverlaySVG E addr r \<lparr>restaurants = Num 0, grocery = Num 0, shopping = Num 0, parks = Num 0\<rparr> pois w h)
   \<and> sublist (lit ''Parks: 0</text>'') (generateOverlaySVG E addr r \<lparr>restaurants = Num 0, grocery = Num 0, shopping = Num 0, parks = Num 0\<rparr> pois w h)\<close>
  by (intro conjI in_svg_via_amenities dots_in_box listingLabel_in_box restaurantsLabel_in_box
      groceryLabel_in_box shoppingLabel_in_box parksLabel_in_box numberToString_0
      zero_stats_labels)

section \<open>Scale and sizes\<close>

lemma mathRound_nearest: "\<bar>of_int (mathRound x) - x\<bar> \<le> 1 / 2"
  unfolding mathRound_def by linarith

lemma fl_half: "fl (1 / 2) = 1 / 2"
  by code_simp

lemma fl_2: "fl 2 = 2"
  by code_simp

lemma scale_eq: "scale w h = max 1 (fdiv (of_int (max w h)) 1000)"
  by (simp add: scale_def Let_def max.commute)

lemma scale_500: "scale 500 500 = 1"
  by (simp add: scale_def fdiv_def fl_half)

lemma scale_2000: "scale 2000 1500 = 2"
  by (simp add: scale_def fdiv_def fl_2)

lemma sizes_500: "overlaySizes 500 500 =
  \<lparr>padding = 12, boxPadding = 10, titleFontSize = 14, textFontSize = 11, smallFontSize = 10,
   dotSize = 8, lineHeight = 16, borderRadius = 6, addressBoxWidth = 240,
   addressBoxHeight = 65, amenitiesBoxWidth = 160, amenitiesBoxHeight = 115,
   closestBoxWidth = 200, closestBoxHeight = 95\<rparr>"
  unfolding overlaySizes_def scale_500 Let_def fmul_def
  by simp code_simp

lemma sizes_2000: "overlaySizes 2000 1500 =
  \<lparr>padding = 24, boxPadding = 20, titleFontSize = 28, textFontSize = 22, smallFontSize = 20,
   dotSize = 16, lineHeight = 32, borderRadius = 12, addressBoxWidth = 480,
   addressBoxHeight = 130, amenitiesBoxWidth = 320, amenitiesBoxHeight = 230,
   closestBoxWidth = 400, closestBoxHeight = 190\<rparr>"
  unfolding overlaySizes_def scale_2000 Let_def fmul_def
  by simp code_simp

lemma scale_ge_1: "1 \<le> scale w h"
  by (simp add: scale_def Let_def)

lemma pow2_tiny: "pow2 (- 1022) \<le> 1"
  using pow2_mono [of "- 1022" 0] by (simp add: pow2_def)

lemma size_near:
  assumes "1 \<le> c" and "1 \<le> s"
  shows "\<bar>of_int (mathRound (fmul c s)) - c * s\<bar> \<le> 1 / 2 + c * s / 2 ^ 53"
proof -
  have "1 \<le> c * s"
    using assms by (metis mult_mono' zero_le_one mult_1)
  then have "pow2 (- 1022) \<le> \<bar>c * s\<bar>"
    using pow2_tiny by linarith
  then have "\<bar>fl (c * s) - c * s\<bar> \<le> \<bar>c * s\<bar> / 2 ^ 53"
    by (rule fl_error)
  moreover have "\<bar>c * s\<bar> = c * s"
    using \<open>1 \<le> c * s\<close> by simp
  ultimately have "\<bar>fl (c * s) - c * s\<bar> \<le> c * s / 2 ^ 53"
    by simp
  then show ?thesis
    unfolding fmul_def using mathRound_nearest [of "fl (c * s)"] by linarith
qed

lemma scale_near:
  assumes "0 < w" and "0 < h"
  shows "\<bar>scale w h - max 1 (of_int (max w h) / 1000)\<bar> \<le> of_int (max w h) / 1000 / 2 ^ 53"
proof -
  let ?q = "of_int (max w h) / 1000 :: rat"
  have "1 \<le> max w h"
    using assms by simp
  then have "(1::rat) \<le> of_int (max w h)"
    by (simp only: of_int_1_le_iff)
  then have q: "1 / 1000 \<le> ?q"
    by simp
  have "pow2 (- 1022) \<le> pow2 (- 10)"
    by (rule pow2_mono) simp
  also have "\<dots> \<le> 1 / 1000"
    by (simp add: pow2_def)
  finally have "pow2 (- 1022) \<le> \<bar>?q\<bar>"
    using q by linarith
  then have "\<bar>fl ?q - ?q\<bar> \<le> \<bar>?q\<bar> / 2 ^ 53"
    by (rule fl_error)
  moreover have "\<bar>?q\<bar> = ?q"
    using q by simp
  moreover have "\<bar>max (fl ?q) 1 - max 1 ?q\<bar> \<le> \<bar>fl ?q - ?q\<bar>"
    by (simp add: max_def abs_if)
  ultimately show ?thesis
    by (simp add: scale_def Let_def fdiv_def)
qed

text \<open>
  C4. For a canvas of positive width and height, \<open>scale\<close> is the larger of 1 and the
  binary64 quotient of the larger side by 1000, which is the exact quotient up to a
  relative rounding error of \<open>2^-53\<close>: 1 for 500 by 500 and 2 for 2000 by 1500. Each of
  the fourteen size constants is \<open>Math.round\<close> of the binary64 product of its base
  constant and the scale, hence an integer within one half (and that rounding error)
  of the exact product: the base constants themselves for scale 1 and their doubles
  for scale 2.
\<close>

theorem C4_scale_and_sizes:
  assumes "0 < w" and "0 < h"
  shows "scale w h = max 1 (fdiv (of_int (max w h)) 1000)
   \<and> \<bar>scale w h - max 1 (of_int (max w h) / 1000)\<bar> \<le> of_int (max w h) / 1000 / 2 ^ 53
   \<and> scale 500 500 = 1
   \<and> scale 2000 1500 = 2
   \<and> list_all (\<lambda>(c, v). v = mathRound (fmul c (scale w h))
            \<and> \<bar>of_int v - c * scale w h\<bar> \<le> 1 / 2 + c * scale w h / 2 ^ 53)
        [(12, padding (overlaySizes w h)),
         (10, boxPadding (overlaySizes w h)),
         (14, titleFontSize (overlaySizes w h)),
         (11, textFontSize (overlaySizes w h)),
         (10, smallFontSize (overlaySizes w h)),
         (8, dotSize (overlaySizes w h)),
         (16, lineHeight (overlaySizes w h)),
         (6, borderRadius (overlaySizes w h)),
         (240, addressBoxWidth (overlaySizes w h)),
         (65, addressBoxHeight (overlaySizes w h)),
         (160, amenitiesBoxWidth (overlaySizes w h)),
         (115, amenitiesBoxHeight (overlaySizes w h)),
         (200, closestBoxWidth (overlaySizes w h)),
         (95, closestBoxHeight (overlaySizes w h))]
   \<and> overlaySizes 500 500 =
       \<lparr>padding = 12, boxPadding = 10, titleFontSize = 14, textFontSize = 11,
        smallFontSize = 10, dotSize = 8, lineHeight = 16, borderRadius = 6,
        addressBoxWidth = 240, addressBoxHeight = 65, amenitiesBoxWidth = 160,
        amenitiesBoxHeight = 115, closestBoxWidth = 200, closestBoxHeight = 95\<rparr>
   \<and> overlaySizes 2000 1500 =
       \<lparr>padding = 24, boxPadding = 20, titleFontSize = 28, textFontSize = 22,
        smallFontSize = 20, dotSize = 16, lineHeight = 32, borderRadius = 12,
        addressBoxWidth = 480, addressBoxHeight = 130, amenitiesBoxWidth = 320,
        amenitiesBoxHeight = 230, closestBoxWidth = 400, closestBoxHeight = 190\<rparr>"
proof -
  have near: "\<bar>of_int (mathRound (fmul c (scale w h))) - c * scale w h\<bar>
      \<le> 1 / 2 + c * scale w h / 2 ^ 53" if "1 \<le> c" for c
    using that scale_ge_1 by (rule size_near)
  have sizes: "list_all (\<lambda>(c, v). v = mathRound (fmul c (scale w h))
            \<and> \<bar>of_int v - c * scale w h\<bar> \<le> 1 / 2 + c * scale w h / 2 ^ 53)
        [(12, padding (overlaySizes w h)),
         (10, boxPadding (overlaySizes w h)),
         (14, titleFontSize (overlaySizes w h)),
         (11, textFontSize (overlaySizes w h)),
         (10, smallFontSize (overlaySizes w h)),
         (8, dotSize (overlaySizes w h)),
         (16, lineHeight (overlaySizes w h)),
         (6, borderRadius (overlaySizes w h)),
         (240, addressBoxWidth (overlaySizes w h)),
         (65, addressBoxHeight (overlaySizes w h)),
         (160, amenitiesBoxWidth (overlaySizes w h)),
         (115, amenitiesBoxHeight (overlaySizes w h)),
         (200, closestBoxWidth (overlaySizes w h)),
         (95, closestBoxHeight (overlaySizes w h))]"
    using near [of 12] near [of 10] near [of 14] near [of 11] near [of 8] near [of 16]
      near [of 6] near [of 240] near [of 65] near [of 160] near [of 115] near [of 200]
      near [of 95]
    by (simp add: overlaySizes_def Let_def)
  show ?thesis
    using scale_eq scale_near [OF assms] scale_500 scale_2000 sizes sizes_500 sizes_2000
    by blast
qed

theorem C4_scale_and_sizes_witness:
  "(0::int) < 2000 \<and> (0::int) < 1500
   \<and> scale 2000 1500 = max 1 (fdiv (of_int (max 2000 1500)) 1000)
   \<and> \<bar>scale 2000 1500 - max 1 (of_int (max 2000 1500) / 1000)\<bar> \<le> of_int (max 2000 1500) / 1000 / 2 ^ 53
   \<and> scale 500 500 = 1
   \<and> scale 2000 1500 = 2
   \<and> list_all (\<lambda>(c, v). v = mathRound (fmul c (scale 2000 1500))
            \<and> \<bar>of_int v - c * scale 2000 1500\<bar> \<le> 1 / 2 + c * scale 2000 1500 / 2 ^ 53)
        [(12, padding (overlaySizes 2000 1500)),
         (10, boxPadding (overlaySizes 2000 1500)),
         (14, titleFontSize (overlaySizes 2000 1500)),
         (11, textFontSize (overlaySizes 2000 1500)),
         (10, smallFontSize (overlaySizes 2000 1500)),
         (8, dotSize (overlaySizes 2000 1500)),
         (16, lineHeight (overlaySizes 2000 1500)),
         (6, borderRadius (overlaySizes 2000 1500)),
         (240, addressBoxWidth (overlaySizes 2000 1500)),
         (65, addressBoxHeight (overlaySizes 2000 1500)),
         (160, amenitiesBoxWidth (overlaySizes 2000 1500)),
         (115, amenitiesBoxHeight (overlaySizes 2000 1500)),
         (200, closestBoxWidth (overlaySizes 2000 1500)),
         (95, closestBoxHeight (overlaySizes 2000 1500))]
   \<and> overlaySizes 500 500 =
       \<lparr>padding = 12, boxPadding = 10, titleFontSize = 14, textFontSize = 11,
        smallFontSize = 10, dotSize = 8, lineHeight = 16, borderRadius = 6,
        addressBoxWidth = 240, addressBoxHeight = 65, amenitiesBoxWidth = 160,
        amenitiesBoxHeight = 115, closestBoxWidth = 200, closestBoxHeight = 95\<rparr>
   \<and> overlaySizes 2000 1500 =
       \<lparr>padding = 24, boxPadding = 20, titleFontSize = 28, textFontSize = 22,
        smallFontSize = 20, dotSize = 16, lineHeight = 32, borderRadius = 12,
        addressBoxWidth = 480, addressBoxHeight = 130, amenitiesBoxWidth = 320,
        amenitiesBoxHeight = 230, closestBoxWidth = 400, closestBoxHeight = 190\<rparr>"
proof -
  have pos: "(0::int) < 2000" "(0::int) < 1500"
    by simp_all
  show ?thesis
    using pos C4_scale_and_sizes [OF pos] by blast
qed


section \<open>The router's configuration query\<close>

text \<open>
  C10. The answer of \<open>config.getApiKeys\<close> carries the two secrets themselves: its
  \<open>googlePlacesKey\<close> and \<open>mapboxToken\<close> are the values of the environment variables
  \<open>GOOGLE_PLACES_API_KEY\<close> and \<open>MAPBOX_ACCESS_TOKEN\<close> (the empty string when unset), next
  to the two flags that say whether each is set. So the answer is not independent of
  the secrets: two environments that differ in a key value give different answers.
\<close>

theorem C10_api_keys:
  "googlePlacesKey (getApiKeys env) = GOOGLE_PLACES_API_KEY env
   \<and> mapboxToken (getApiKeys env) = MAPBOX_ACCESS_TOKEN env
   \<and> googlePlacesConfigured (getApiKeys env) = (GOOGLE_PLACES_API_KEY env \<noteq> [])
   \<and> mapboxConfigured (getApiKeys env) = (MAPBOX_ACCESS_TOKEN env \<noteq> [])
   \<and> (env (lit ''GOOGLE_PLACES_API_KEY'') = Some k \<longrightarrow> googlePlacesKey (getApiKeys env) = k)
   \<and> (env (lit ''MAPBOX_ACCESS_TOKEN'') = Some t \<longrightarrow> mapboxToken (getApiKeys env) = t)
   \<and> (GOOGLE_PLACES_API_KEY env \<noteq> GOOGLE_PLACES_API_KEY env'
        \<or> MAPBOX_ACCESS_TOKEN env \<noteq> MAPBOX_ACCESS_TOKEN env'
      \<longrightarrow> getApiKeys env \<noteq> getApiKeys env')"
  by (auto simp: getApiKeys_def GOOGLE_PLACES_API_KEY_def MAPBOX_ACCESS_TOKEN_def orEmpty_def)

lemma sampleEnv_keys:
  "sampleEnvA (lit ''GOOGLE_PLACES_API_KEY'') = Some (lit ''key-A'')"
  "sampleEnvB (lit ''GOOGLE_PLACES_API_KEY'') = Some (lit ''key-B'')"
  "lit ''key-A'' \<noteq> lit ''key-B''"
  by (simp_all add: sampleEnvA_def sampleEnvB_def lit_def)

theorem C10_api_keys_witness:
  "googlePlacesKey (getApiKeys sampleEnvA) = lit ''key-A''
   \<and> googlePlacesKey (getApiKeys sampleEnvB) = lit ''key-B''
   \<and> getApiKeys sampleEnvA \<noteq> getApiKeys sampleEnvB"
proof -
  have a: "googlePlacesKey (getApiKeys sampleEnvA) = lit ''key-A''"
    using C10_api_keys [of sampleEnvA "lit ''key-A''"] sampleEnv_keys(1) by blast
  have b: "googlePlacesKey (getApiKeys sampleEnvB) = lit ''key-B''"
    using C10_api_keys [of sampleEnvB "lit ''key-B''"] sampleEnv_keys(2) by blast
  have "GOOGLE_PLACES_API_KEY sampleEnvA \<noteq> GOOGLE_PLACES_API_KEY sampleEnvB"
    using a b sampleEnv_keys(3) C10_api_keys [of sampleEnvA] C10_api_keys [of sampleEnvB]
    by metis
  then have "getApiKeys sampleEnvA \<noteq> getApiKeys sampleEnvB"
    using C10_api_keys [of sampleEnvA _ _ sampleEnvB] by blast
  then show ?thesis
    using a b by blast
qed


section \<open>Bullet colors\<close>

lemma categoryColors_other:
  "c \<notin> {lit ''restaurant'', lit ''grocery'', lit ''shopping'', lit ''park''} \<Longrightarrow>
   map_of categoryColors c = None"
  by (simp add: categoryColors_def)

lemma entryColor_known:
  "entryColor E (lit ''restaurant'') = lit ''#F97316''"
  "entryColor E (lit ''grocery'') = lit ''#92400E''"
  "entryColor E (lit ''shopping'') = lit ''#A855F7''"
  "entryColor E (lit ''park'') = lit ''#22C55E''"
  by (simp_all add: entryColor_def categoryColors_def lit_def)

lemma gray_not_fixed:
  "lit ''#666666'' \<notin> {lit ''#F97316'', lit ''#92400E'', lit ''#A855F7'', lit ''#22C55E''}"
  by (simp add: lit_def)

lemma cafe_unrecognized:
  "lit ''cafe'' \<notin> {lit ''restaurant'', lit ''grocery'', lit ''shopping'', lit ''park''}"
  "lit ''cafe'' \<notin> set objectPrototypeKeys"
  by (simp_all add: objectPrototypeKeys_def lit_def)

text \<open>
  C3, as stated, fails: the table of colors is keyed by \<open>restaurant\<close> and \<open>park\<close>, so
  the tags \<open>restaurants\<close> and \<open>parks\<close> of the claim's category set get the gray fallback
  and not their category's color.
\<close>

theorem C3_counterexample:
  "entryColor sampleEngine (lit ''restaurants'') = lit ''#666666''
   \<and> entryColor sampleEngine (lit ''restaurants'') \<noteq> lit ''#F97316''
   \<and> entryColor sampleEngine (lit ''parks'') = lit ''#666666''
   \<and> entryColor sampleEngine (lit ''parks'') \<noteq> lit ''#22C55E''"
  by (simp add: entryColor_def categoryColors_def objectPrototypeKeys_def lit_def)

text \<open>
  C3, amended. The bullet color of an entry is decided by its category tag: the tags
  \<open>restaurant\<close>, \<open>grocery\<close>, \<open>shopping\<close> and \<open>park\<close> give orange \<open>#F97316\<close>, brown
  \<open>#92400E\<close>, purple \<open>#A855F7\<close> and green \<open>#22C55E\<close>; any other tag that is not the name
  of a property inherited by every object (\<open>cafe\<close>, say) gives the gray \<open>#666666\<close>,
  which is none of the four.
\<close>

theorem C3_entry_color:
  "entryColor E (lit ''restaurant'') = lit ''#F97316''
   \<and> entryColor E (lit ''grocery'') = lit ''#92400E''
   \<and> entryColor E (lit ''shopping'') = lit ''#A855F7''
   \<and> entryColor E (lit ''park'') = lit ''#22C55E''
   \<and> (c \<notin> {lit ''restaurant'', lit ''grocery'', lit ''shopping'', lit ''park''}
        \<and> c \<notin> set objectPrototypeKeys
      \<longrightarrow> entryColor E c = lit ''#666666'')
   \<and> lit ''#666666'' \<notin> {lit ''#F97316'', lit ''#92400E'', lit ''#A855F7'', lit ''#22C55E''}"
  using entryColor_known [of E] gray_not_fixed categoryColors_other [of c]
  by (simp add: entryColor_def)

theorem C3_entry_color_witness:
  "entryColor sampleEngine (lit ''cafe'') = lit ''#666666''
   \<and> entryColor sampleEngine (lit ''park'') = lit ''#22C55E''"
  using C3_entry_color [of sampleEngine "lit ''cafe''"] cafe_unrecognized by blast


section \<open>Closest locations\<close>




























section \<open>Compositing and the mutation\<close>

lemma str_nat: "n < 2 ^ 53 \<Longrightarrow> str E (of_nat n) = decimalDigits n"
proof -
  assume n: "n < 2 ^ 53"
  have "rat_of_nat n < rat_of_nat (2 ^ 53)"
    using n by (simp only: of_nat_less_iff)
  then have "isSafeInteger (of_nat n)"
    by (simp add: isSafeInteger_def)
  then show ?thesis
    by (simp add: str_def)
qed

lemma str_status: "str E (of_nat (unat (s :: 16 word))) = decimalDigits (unat s)"
proof -
  have "unat s < 2 ^ 16"
    using unsigned_less [of s] by simp
  also have "(2::nat) ^ 16 < 2 ^ 53"
    by simp
  finally show ?thesis
    by (rule str_nat)
qed

lemma str_status_unsigned: "str E (unsigned (s :: 16 word)) = decimalDigits (unat s)"
  using str_status [of E s] by simp

lemma composeMapImage_rejected:
  "fetch S (mapUrl inp) = Rejected e \<Longrightarrow> composeMapImage S E inp = Inl e"
  by (simp add: composeMapImage_def)

lemma composeMapImage_not_ok:
  "fetch S (mapUrl inp) = Resolved resp \<Longrightarrow> \<not> ok resp \<Longrightarrow>
   composeMapImage S E inp =
     Inl (Error (lit ''Failed to fetch map image: '' @ decimalDigits (unat (status resp))))"
  by (simp add: composeMapImage_def str_status_unsigned)

lemma composeMapImage_decoded:
  assumes "fetch S (mapUrl inp) = Resolved resp" and "ok resp"
    and "arrayBuffer resp = Inr mapBuffer" and "sharpMetadata S mapBuffer = Inr md"
  shows "composeMapImage S E inp =
     (case sharpCompositePng S mapBuffer
             [\<lparr>input = bufferFrom S
                 (generateOverlaySVG E (address inp) (radius inp) (stats inp) (closestPOIs inp)
                    (int (orDefault (width md) 1280)) (int (orDefault (height md) 960))),
               top_px = 0, left_px = 0\<rparr>] of
        Inl e \<Rightarrow> Inl e
      | Inr composited \<Rightarrow> Inr (toBase64 S composited))"
  using assms by (simp add: composeMapImage_def Let_def)

lemma compositeMap_failed:
  "composeMapImage S E inp = Inl e \<Longrightarrow>
   compositeMap S E inp =
     \<lparr>logged = [e], result = Inl (Error (lit ''Failed to compose map image''))\<rparr>"
  by (simp add: compositeMap_def)

lemma svgRoot_prefix:
  "prefix (svgRoot E w h) (generateOverlaySVG E addr r st pois w h)"
  unfolding generateOverlaySVG_unfold by simp


text \<open>
  C2, as stated, fails in its last part: the router replaces every error of
  \<open>composeMapImage\<close> by the same one, so its caller sees the same error for a base image
  that was not found as for a compositing that failed, and cannot tell the phase.
\<close>

theorem C2_counterexample:
  "composeMapImage notFoundWorld sampleEngine sampleInput =
     Inl (Error (lit ''Failed to fetch map image: 404''))
   \<and> composeMapImage compositeFailWorld sampleEngine sampleInput =
     Inl (Error (lit ''Image to composite must have same dimensions or smaller''))
   \<and> result (compositeMap notFoundWorld sampleEngine sampleInput) =
     result (compositeMap compositeFailWorld sampleEngine sampleInput)"
proof -
  have nf: "fetch notFoundWorld (mapUrl sampleInput) = Resolved \<lparr>status = 404, arrayBuffer = Inr []\<rparr>"
    by (simp add: notFoundWorld_def fixedServices_def notFoundResponse_def)
  have digits: "decimalDigits 404 = lit ''404''"
    by (simp add: decimalDigits.simps digitChar_def lit_def)
  have a: "composeMapImage notFoundWorld sampleEngine sampleInput =
     Inl (Error (lit ''Failed to fetch map image: 404''))"
    using composeMapImage_not_ok [OF nf, of sampleEngine]
    by (simp add: ok_def digits) (simp add: lit_def)
  have b: "composeMapImage compositeFailWorld sampleEngine sampleInput =
     Inl (Error (lit ''Image to composite must have same dimensions or smaller''))"
    by (simp add: composeMapImage_def compositeFailWorld_def fixedServices_def okResponse_def
        ok_def Let_def)
  show ?thesis
    using a b compositeMap_failed [OF a] compositeMap_failed [OF b] by simp
qed


text \<open>
  C2, amended. When the fetch of the base image rejects, \<open>composeMapImage\<close> fails with
  that very error, and when it resolves to a response that is not \<open>ok\<close>,
  \<open>composeMapImage\<close> fails with \<open>Failed to fetch map image:\<close> and the status; no image
  is returned. The \<open>compositeMap\<close> mutation then logs that error and fails with the
  error \<open>Failed to compose map image\<close>, which does not name the phase.
\<close>

theorem C2_fetch_failure:
  "(fetch S (mapUrl inp) = Rejected e \<longrightarrow>
      composeMapImage S E inp = Inl e
      \<and> compositeMap S E inp =
          \<lparr>logged = [e], result = Inl (Error (lit ''Failed to compose map image''))\<rparr>)
   \<and> (fetch S (mapUrl inp) = Resolved resp \<and> \<not> ok resp \<longrightarrow>
      composeMapImage S E inp =
        Inl (Error (lit ''Failed to fetch map image: '' @ decimalDigits (unat (status resp))))
      \<and> compositeMap S E inp =
          \<lparr>logged = [Error (lit ''Failed to fetch map image: '' @
                          decimalDigits (unat (status resp)))],
           result = Inl (Error (lit ''Failed to compose map image''))\<rparr>)"
proof -
  have rejected: "composeMapImage S E inp = Inl e
      \<and> compositeMap S E inp =
          \<lparr>logged = [e], result = Inl (Error (lit ''Failed to compose map image''))\<rparr>"
    if "fetch S (mapUrl inp) = Rejected e"
    using composeMapImage_rejected [OF that] compositeMap_failed by blast
  have refused: "composeMapImage S E inp =
        Inl (Error (lit ''Failed to fetch map image: '' @ decimalDigits (unat (status resp))))
      \<and> compositeMap S E inp =
          \<lparr>logged = [Error (lit ''Failed to fetch map image: '' @
                          decimalDigits (unat (status resp)))],
           result = Inl (Error (lit ''Failed to compose map image''))\<rparr>"
    if "fetch S (mapUrl inp) = Resolved resp" and "\<not> ok resp"
    using composeMapImage_not_ok [OF that] compositeMap_failed by blast
  show ?thesis
    using rejected refused by blast
qed

theorem C2_fetch_failure_witness:
  "fetch offlineWorld (mapUrl sampleInput) = Rejected (Error (lit ''fetch failed''))
   \<and> composeMapImage offlineWorld sampleEngine sampleInput = Inl (Error (lit ''fetch failed''))
   \<and> result (compositeMap offlineWorld sampleEngine sampleInput) =
       Inl (Error (lit ''Failed to compose map image''))
   \<and> fetch notFoundWorld (mapUrl sampleInput) = Resolved \<lparr>status = 404, arrayBuffer = Inr []\<rparr>
   \<and> \<not> ok \<lparr>status = 404, arrayBuffer = Inr []\<rparr>
   \<and> composeMapImage notFoundWorld sampleEngine sampleInput =
       Inl (Error (lit ''Failed to fetch map image: '' @ decimalDigits 404))
   \<and> logged (compositeMap notFoundWorld sampleEngine sampleInput) =
       [Error (lit ''Failed to fetch map image: '' @ decimalDigits 404)]
   \<and> result (compositeMap notFoundWorld sampleEngine sampleInput) =
       Inl (Error (lit ''Failed to compose map image''))"
proof -
  have off: "fetch offlineWorld (mapUrl sampleInput) = Rejected (Error (lit ''fetch failed''))"
    by (simp add: offlineWorld_def fixedServices_def)
  have nf: "fetch notFoundWorld (mapUrl sampleInput) = Resolved \<lparr>status = 404, arrayBuffer = Inr []\<rparr>"
    by (simp add: notFoundWorld_def fixedServices_def notFoundResponse_def)
  have bad: "\<not> ok \<lparr>status = 404, arrayBuffer = Inr []\<rparr>"
    by (simp add: ok_def)
  have st: "unat (status \<lparr>status = 404, arrayBuffer = Inr []\<rparr>) = 404"
    by simp
  note A = C2_fetch_failure [where S = offlineWorld and inp = sampleInput and E = sampleEngine
      and e = "Error (lit ''fetch failed'')", THEN conjunct1, rule_format, OF off]
  note B = C2_fetch_failure [where S = notFoundWorld and inp = sampleInput and E = sampleEngine
      and resp = "\<lparr>status = 404, arrayBuffer = Inr []\<rparr>", THEN conjunct2, rule_format,
      OF conjI [OF nf bad]]
  show ?thesis
    using off nf bad A B by (simp add: st)
qed





section \<open>The size of the composite image\<close>

lemma compositeAll_size:
  "compositeAll C base layers = Inr merged \<Longrightarrow>
   rwidth merged = rwidth base \<and> rheight merged = rheight base"
proof (induction layers arbitrary: base)
  case Nil
  then show ?case by simp
next
  case (Cons layer layers)
  show ?case
  proof (cases "decode C (input layer)")
    case (Inl e)
    then show ?thesis using Cons.prems by simp
  next
    case (Inr ov)
    then have "compositeAll C (compositeOnto C base ov (top_px layer) (left_px layer)) layers
        = Inr merged"
      using Cons.prems by (simp split: if_splits)
    from Cons.IH [OF this] show ?thesis
      by (simp add: compositeOnto_def)
  qed
qed

lemma compositeAll_single:
  "compositeAll C base [layer] = Inr merged \<Longrightarrow>
   \<exists>ov. decode C (input layer) = Inr ov
     \<and> rwidth ov \<le> rwidth base \<and> rheight ov \<le> rheight base
     \<and> merged = compositeOnto C base ov (top_px layer) (left_px layer)"
  by (cases "decode C (input layer)") (auto split: if_splits)

lemma compositeOnto_origin:
  "pixelAt (compositeOnto C base ov 0 0) x y =
     (if x < rwidth ov \<and> y < rheight ov then blend C (pixelAt ov x y) (pixelAt base x y)
      else pixelAt base x y)"
  by (simp add: compositeOnto_def)

lemma svgRoot_text:
  \<open>svgRoot E (int w) (int h) =
     lit ''<svg width="'' @ numberToString E (Num (of_nat w)) @ lit ''" height="'' @
     numberToString E (Num (of_nat h)) @ lit ''" xmlns="http://www.w3.org/2000/svg">''\<close>
  by (simp add: svgRoot_def str_def)

lemma svgRoot_800: \<open>svgRoot E 800 600 =
    lit ''<svg width="800" height="600" xmlns="http://www.w3.org/2000/svg">''\<close>
proof -
  have "str E (of_int 800) = decimalDigits 800" "str E (of_int 600) = decimalDigits 600"
    using str_nat [of 800 E] str_nat [of 600 E] by simp_all
  moreover have "decimalDigits 800 = lit ''800''" "decimalDigits 600 = lit ''600''"
    by (simp_all add: decimalDigits.simps digitChar_def lit_def)
  ultimately show ?thesis
    by (simp only: svgRoot_def) (simp add: lit_def)
qed

lemma svgSize_root:
  \<open>svgSize (map ucast (lit ''<svg width="800" height="600" xmlns="http://www.w3.org/2000/svg">'')
      @ rest) = Some (800, 600)\<close>
  by (simp add: svgSize_def lit_def Let_def)

lemma sampleDecode_overlay:
  "sampleDecode (map ucast (generateOverlaySVG E addr r st pois 800 600)) =
     Inr \<lparr>rwidth = 800, rheight = 600, pixelAt = (\<lambda>x y. 0)\<rparr>"
proof -
  obtain rest :: bytes where rest: \<open>map ucast (generateOverlaySVG E addr r st pois 800 600) =
      map ucast (lit ''<svg width="800" height="600" xmlns="http://www.w3.org/2000/svg">'') @ rest\<close>
    unfolding generateOverlaySVG_unfold svgRoot_800 by simp
  have sig: "take 4 (map ucast (generateOverlaySVG E addr r st pois 800 600))
      \<noteq> [0x89, 0x50, 0x4E, 0x47 :: 8 word]"
    unfolding rest by (simp add: lit_def)
  show ?thesis
    unfolding sampleDecode_def using sig by (simp add: rest svgSize_root)
qed


text \<open>
  C1. Let the image library be the one modelled above, over any codecs, and take a base
  image that was fetched and that decodes to the raster \<open>base\<close>. Then an image returned
  by \<open>composeMapImage\<close> is the encoding of a merged raster that has exactly the width
  and the height of \<open>base\<close>. The merged raster is \<open>base\<close> with one overlay composited
  onto it at offset 0, 0: the rasterized scene that was generated for the width and
  height read from \<open>base\<close>, which is not wider and not taller than \<open>base\<close>. Under
  the overlay a pixel of the merged raster is the blend of the overlay's pixel over
  the base's pixel at the same position, and elsewhere it is the base's pixel. When
  the width and the height of \<open>base\<close> are positive, they are the dimensions the scene
  is generated for, and its root element carries them as its \<open>width\<close> and \<open>height\<close>.
\<close>

theorem C1_same_pixel_size:
  assumes "net (mapUrl inp) = Resolved resp" and "ok resp"
    and "arrayBuffer resp = Inr mapBuffer"
    and "decode C mapBuffer = Inr base"
    and "composeMapImage (sharpServices C net enc b64) E inp = Inr returned"
  shows \<open>(\<exists>out merged ov.
            returned = b64 out \<and> encodePng C merged = Inr out
          \<and> rwidth merged = rwidth base \<and> rheight merged = rheight base
          \<and> decode C (enc (generateOverlaySVG E (address inp) (radius inp) (stats inp)
                (closestPOIs inp) (int (orDefault (Some (rwidth base)) 1280))
                (int (orDefault (Some (rheight base)) 960)))) = Inr ov
          \<and> rwidth ov \<le> rwidth base \<and> rheight ov \<le> rheight base
          \<and> merged = compositeOnto C base ov 0 0
          \<and> (\<forall>x y. pixelAt merged x y =
                (if x < rwidth ov \<and> y < rheight ov
                 then blend C (pixelAt ov x y) (pixelAt base x y) else pixelAt base x y)))
   \<and> (0 < rwidth base \<and> 0 < rheight base \<longrightarrow>
        orDefault (Some (rwidth base)) 1280 = rwidth base
      \<and> orDefault (Some (rheight base)) 960 = rheight base
      \<and> prefix (lit ''<svg width="'' @ numberToString E (Num (of_nat (rwidth base))) @
                lit ''" height="'' @ numberToString E (Num (of_nat (rheight base))) @
                lit ''" xmlns="http://www.w3.org/2000/svg">'')
           (generateOverlaySVG E (address inp) (radius inp) (stats inp) (closestPOIs inp)
              (int (rwidth base)) (int (rheight base))))\<close>
proof -
  let ?S = "sharpServices C net enc b64"
  let ?svg = "generateOverlaySVG E (address inp) (radius inp) (stats inp) (closestPOIs inp)
      (int (orDefault (Some (rwidth base)) 1280)) (int (orDefault (Some (rheight base)) 960))"
  let ?layer = "\<lparr>input = enc ?svg, top_px = 0, left_px = 0\<rparr>"
  have f: "fetch ?S (mapUrl inp) = Resolved resp"
    using assms(1) by (simp add: sharpServices_def)
  have m: "sharpMetadata ?S mapBuffer =
      Inr \<lparr>width = Some (rwidth base), height = Some (rheight base)\<rparr>"
    using assms(4) by (simp add: sharpServices_def sharp_metadata_def)
  have run: "composeMapImage ?S E inp =
      (case sharp_composite_png C mapBuffer [?layer] of
         Inl e \<Rightarrow> Inl e
       | Inr composited \<Rightarrow> Inr (b64 composited))"
    using composeMapImage_decoded [OF f assms(2,3) m, of E]
    unfolding sharpServices_def services.simps orDefault_def by simp
  obtain out where out: "sharp_composite_png C mapBuffer [?layer] = Inr out" "returned = b64 out"
    using assms(5) unfolding run by (cases "sharp_composite_png C mapBuffer [?layer]") auto
  obtain merged where merged: "compositeAll C base [?layer] = Inr merged"
      "encodePng C merged = Inr out"
    using out(1) assms(4) unfolding sharp_composite_png_def
    by (cases "compositeAll C base [?layer]") auto
  have size: "rwidth merged = rwidth base \<and> rheight merged = rheight base"
    by (rule compositeAll_size [OF merged(1)])
  obtain ov where ov: "decode C (enc ?svg) = Inr ov"
      "rwidth ov \<le> rwidth base" "rheight ov \<le> rheight base"
      "merged = compositeOnto C base ov 0 0"
    using compositeAll_single [OF merged(1)] by auto
  have pixels: "\<forall>x y. pixelAt merged x y =
      (if x < rwidth ov \<and> y < rheight ov
       then blend C (pixelAt ov x y) (pixelAt base x y) else pixelAt base x y)"
    unfolding ov(4) by (simp only: compositeOnto_origin) simp
  have first: "\<exists>out merged ov.
            returned = b64 out \<and> encodePng C merged = Inr out
          \<and> rwidth merged = rwidth base \<and> rheight merged = rheight base
          \<and> decode C (enc ?svg) = Inr ov
          \<and> rwidth ov \<le> rwidth base \<and> rheight ov \<le> rheight base
          \<and> merged = compositeOnto C base ov 0 0
          \<and> (\<forall>x y. pixelAt merged x y =
                (if x < rwidth ov \<and> y < rheight ov
                 then blend C (pixelAt ov x y) (pixelAt base x y) else pixelAt base x y))"
    using out(2) merged(2) size ov pixels by blast
  have second: \<open>orDefault (Some (rwidth base)) 1280 = rwidth base
      \<and> orDefault (Some (rheight base)) 960 = rheight base
      \<and> prefix (lit ''<svg width="'' @ numberToString E (Num (of_nat (rwidth base))) @
                lit ''" height="'' @ numberToString E (Num (of_nat (rheight base))) @
                lit ''" xmlns="http://www.w3.org/2000/svg">'')
           (generateOverlaySVG E (address inp) (radius inp) (stats inp) (closestPOIs inp)
              (int (rwidth base)) (int (rheight base)))\<close>
    if "0 < rwidth base \<and> 0 < rheight base"
    using that svgRoot_prefix [of E "int (rwidth base)" "int (rheight base)"]
    by (simp only: svgRoot_text) (simp add: orDefault_def)
  show ?thesis
    using first second by blast
qed

theorem C1_same_pixel_size_witness:
  \<open>composeMapImage sharpWorld sampleEngine sampleInput =
     Inr (map ucast [0x89, 0x50, 0x4E, 0x47, 0x03, 0x20, 0x02, 0x58 :: 8 word])
   \<and> decode sampleCodec [0x89, 0x50, 0x4E, 0x47, 0x03, 0x20, 0x02, 0x58] =
       Inr \<lparr>rwidth = 800, rheight = 600, pixelAt = (\<lambda>x y. 0xFFFFFFFF)\<rparr>
   \<and> (\<exists>out merged.
         map ucast [0x89, 0x50, 0x4E, 0x47, 0x03, 0x20, 0x02, 0x58 :: 8 word] =
           (map ucast out :: jsstring)
       \<and> encodePng sampleCodec merged = Inr out
       \<and> rwidth merged = 800 \<and> rheight merged = 600)
   \<and> prefix (lit ''<svg width="800" height="600" xmlns="http://www.w3.org/2000/svg">'')
        (generateOverlaySVG sampleEngine (address sampleInput) (radius sampleInput)
           (stats sampleInput) (closestPOIs sampleInput) 800 600)\<close>
proof -
  let ?png = "[0x89, 0x50, 0x4E, 0x47, 0x03, 0x20, 0x02, 0x58] :: bytes"
  let ?base = "\<lparr>rwidth = 800, rheight = 600, pixelAt = (\<lambda>x y. 0xFFFFFFFF :: pixel)\<rparr>"
  have k: "ok sizedResponse"
    by (simp add: ok_def sizedResponse_def)
  have b: "arrayBuffer sizedResponse = Inr ?png"
    by (simp add: sizedResponse_def)
  have d: "decode sampleCodec ?png = Inr ?base"
    by (simp add: sampleCodec_def sampleDecode_def)
  have m: "sharpMetadata sharpWorld ?png = Inr \<lparr>width = Some 800, height = Some 600\<rparr>"
    using d by (simp add: sharpWorld_def sharpServices_def sharp_metadata_def)
  have f: "fetch sharpWorld (mapUrl sampleInput) = Resolved sizedResponse"
    by (simp add: sharpWorld_def sharpServices_def)
  have c: "sharpCompositePng sharpWorld ?png
      [\<lparr>input = bufferFrom sharpWorld
          (generateOverlaySVG sampleEngine (address sampleInput) (radius sampleInput)
             (stats sampleInput) (closestPOIs sampleInput) 800 600),
        top_px = 0, left_px = 0\<rparr>] = Inr ?png"
    using d
    by (simp add: sharpWorld_def sharpServices_def sharp_composite_png_def sampleCodec_def
        sampleDecode_overlay sampleEncode_def compositeOnto_def)
  have r: "composeMapImage sharpWorld sampleEngine sampleInput = Inr (map ucast ?png)"
    using composeMapImage_decoded [OF f k b m, of sampleEngine] c
    by (simp add: orDefault_def) (simp add: sharpWorld_def sharpServices_def)
  note T = C1_same_pixel_size [of "\<lambda>url. Resolved sizedResponse" sampleInput sizedResponse
      ?png sampleCodec ?base "map ucast" "map ucast" sampleEngine "map ucast ?png",
      OF refl k b d r [unfolded sharpWorld_def]]
  obtain out merged where o: "map ucast ?png = (map ucast out :: jsstring)"
      "encodePng sampleCodec merged = Inr out"
      "rwidth merged = rwidth ?base" "rheight merged = rheight ?base"
    using T [THEN conjunct1] by blast
  have size: "rwidth merged = 800" "rheight merged = 600"
    using o(3,4) by simp_all
  have ex: "\<exists>out merged.
         map ucast ?png = (map ucast out :: jsstring)
       \<and> encodePng sampleCodec merged = Inr out
       \<and> rwidth merged = 800 \<and> rheight merged = 600"
    using o(1,2) size by blast
  have root: \<open>prefix (lit ''<svg width="800" height="600" xmlns="http://www.w3.org/2000/svg">'')
        (generateOverlaySVG sampleEngine (address sampleInput) (radius sampleInput)
           (stats sampleInput) (closestPOIs sampleInput) 800 600)\<close>
    using svgRoot_prefix [of sampleEngine 800 600] by (simp only: svgRoot_800)
  show ?thesis
    using r d ex root by blast
qed

end
